theory Spec2Isabelle
  imports Complex_Main "HOL-Library.Multiset" "HOL-Library.Product_Lexorder"
    "HOL-Library.AList" "HOL-Library.Sublist"
begin

section \<open>The grading engine of src/utils.ts\<close>

text \<open>
  Conventions of the embedding.
  \<^item> A JavaScript \<open>number\<close> is the \<^typ>\<open>real\<close> that a finite IEEE double stands for. Each
    addition, subtraction, multiplication and division of numbers that the code performs
    is the exact operation followed by \<open>fl\<close>, the rounding to the nearest double (ties to
    the even significand, gradual underflow); a decimal literal is the double nearest to
    it, and so is every number passed in: a decimal \<open>d\<close> that is no double is passed as
    \<open>fl d\<close>. There is no \<open>NaN\<close> and no infinity: the exponent of \<open>fl\<close> has no upper bound.
  \<^item> Three things stay exact. Grade values, which the code produces as the literals 1 to
    9, and their sums are \<^typ>\<open>int\<close>, counters are \<^typ>\<open>nat\<close> (doubles add whole numbers
    below \<open>2^53\<close> exactly). A comparator returns the exact difference of its two numbers,
    whose sign is that of the rounded one. The total of a student's scores is their exact
    sum: doubles add whole-number scores exactly, and for other scores the total of the
    code can differ from it by the rounding of each addition.
  \<^item> An optional property is an \<open>option\<close>; a \<open>Record<string, T>\<close> that the code only reads
    is a map \<open>string \<rightharpoonup> T\<close>, one whose order of insertion is observable is an association
    list.
  \<^item> \<open>a || d\<close> on strings takes \<open>d\<close> when \<open>a\<close> is undefined or empty; on numbers when \<open>a\<close> is
    undefined or 0. A \<^typ>\<open>char\<close> is a UTF-16 code unit below 256.
  \<^item> \<open>Array.prototype.sort\<close> with a comparator is the stable sort that ECMAScript
    prescribes: insertion from the right, an element going in front of the first one it
    does not compare greater than.
  \<^item> The constants \<open>CORE_SUBJECTS\<close> and \<open>DEFAULT_GRADING_REMARKS\<close> live in a file that is
    not part of the sources; they are parameters.
\<close>

subsection \<open>Double arithmetic\<close>

text \<open>
  \<open>expo x\<close> is the binary exponent of a positive number: \<open>2^e \<le> x < 2^(e+1)\<close>. A double
  has a significand of 53 bits, and none is finer than \<open>2^-1074\<close>.
\<close>

function expo :: "real \<Rightarrow> int" where
  "expo x = (if x \<le> 0 then 0
             else if 2 \<le> x then expo (x / 2) + 1
             else if x < 1 then expo (2 * x) - 1
             else 0)"
  by pat_completeness auto
termination
proof (relation "measure (\<lambda>x. if 1 \<le> x then nat \<lfloor>x\<rfloor> else nat \<lceil>1 / x\<rceil> + 1)")
  show "wf (measure (\<lambda>x::real. if 1 \<le> x then nat \<lfloor>x\<rfloor> else nat \<lceil>1 / x\<rceil> + 1))"
    by simp
next
  fix x :: real
  assume "\<not> x \<le> 0" "2 \<le> x"
  then have "\<lfloor>x / 2\<rfloor> < \<lfloor>x\<rfloor>" "0 < \<lfloor>x\<rfloor>"
    by linarith+
  with \<open>2 \<le> x\<close> show "(x / 2, x) \<in> measure (\<lambda>x. if 1 \<le> x then nat \<lfloor>x\<rfloor> else nat \<lceil>1 / x\<rceil> + 1)"
    by simp
next
  fix x :: real
  assume x: "\<not> x \<le> 0" "\<not> 2 \<le> x" "x < 1"
  show "(2 * x, x) \<in> measure (\<lambda>x. if 1 \<le> x then nat \<lfloor>x\<rfloor> else nat \<lceil>1 / x\<rceil> + 1)"
  proof (cases "1 \<le> 2 * x")
    case True
    with x have "\<lfloor>2 * x\<rfloor> = 1" by linarith
    moreover from x have "1 < 1 / x" by simp
    then have "2 \<le> \<lceil>1 / x\<rceil>" by linarith
    ultimately show ?thesis using True x by simp
  next
    case False
    with x have "2 < 1 / x" by (simp add: field_simps)
    have "1 / (2 * x) = (1 / x) / 2" by simp
    with \<open>2 < 1 / x\<close> have "\<lceil>1 / (2 * x)\<rceil> < \<lceil>1 / x\<rceil>" "0 < \<lceil>1 / x\<rceil>"
      by linarith+
    with False x show ?thesis by simp
  qed
qed

declare expo.simps [simp del]

text \<open>The nearest integer, a half going to the even one.\<close>

definition roundEven :: "real \<Rightarrow> int" where
  "roundEven m = (let f = \<lfloor>m\<rfloor>; r = m - of_int f in
     if r < 1 / 2 then f else if 1 / 2 < r then f + 1 else if even f then f else f + 1)"

definition fl :: "real \<Rightarrow> real" where
  "fl x = (if x = 0 then 0
           else let a = \<bar>x\<bar>;
                    q = max (expo a - 52) (- 1074);
                    y = of_int (roundEven (a / 2 powi q)) * 2 powi q
                in if x < 0 then - y else y)"

definition jsAdd :: "real \<Rightarrow> real \<Rightarrow> real" where
  "jsAdd a b = fl (a + b)"

definition jsSub :: "real \<Rightarrow> real \<Rightarrow> real" where
  "jsSub a b = fl (a - b)"

definition jsMul :: "real \<Rightarrow> real \<Rightarrow> real" where
  "jsMul a b = fl (a * b)"

definition jsDiv :: "real \<Rightarrow> real \<Rightarrow> real" where
  "jsDiv a b = fl (a / b)"

subsection \<open>JavaScript helpers\<close>

fun orElse :: "string option \<Rightarrow> string \<Rightarrow> string" where
  "orElse None d = d"
| "orElse (Some s) d = (if s = [] then d else s)"

fun orZero :: "real option \<Rightarrow> real" where
  "orZero None = 0"
| "orZero (Some v) = v"

text \<open>\<open>Math.round\<close>: the nearest integer to the double itself, a half going up.\<close>

definition mathRound :: "real \<Rightarrow> real" where
  "mathRound x = of_int \<lfloor>x + 1 / 2\<rfloor>"

text \<open>
  \<open>parseFloat(x.toFixed(2))\<close>: \<open>toFixed\<close> takes the multiple of 0.01 nearest to the double
  itself, a half going away from 0, and \<open>parseFloat\<close> the double nearest to that decimal.
\<close>

definition toFixed2 :: "real \<Rightarrow> real" where
  "toFixed2 x = (if x < 0 then - fl (of_int \<lfloor>- x * 100 + 1 / 2\<rfloor> / 100)
                 else fl (of_int \<lfloor>x * 100 + 1 / 2\<rfloor> / 100))"

text \<open>The white space that \<open>trim\<close> strips, among the code units below 256.\<close>

definition isWhiteSpace :: "char \<Rightarrow> bool" where
  "isWhiteSpace c =
     (c \<in> set [CHR '' '', CHR 0x09, CHR 0x0A, CHR 0x0B, CHR 0x0C, CHR 0x0D, CHR 0xA0])"

definition trim :: "string \<Rightarrow> string" where
  "trim s = rev (dropWhile isWhiteSpace (rev (dropWhile isWhiteSpace s)))"

fun join :: "string \<Rightarrow> string list \<Rightarrow> string" where
  "join sep [] = []"
| "join sep [x] = x"
| "join sep (x # y # ys) = x @ sep @ join sep (y # ys)"

fun insertBy :: "('a \<Rightarrow> 'a \<Rightarrow> real) \<Rightarrow> 'a \<Rightarrow> 'a list \<Rightarrow> 'a list" where
  "insertBy cmp x [] = [x]"
| "insertBy cmp x (y # ys) = (if cmp x y \<le> 0 then x # y # ys else y # insertBy cmp x ys)"

definition sortBy :: "('a \<Rightarrow> 'a \<Rightarrow> real) \<Rightarrow> 'a list \<Rightarrow> 'a list" where
  "sortBy cmp xs = foldr (insertBy cmp) xs []"

subsection \<open>calculateMean, calculateStdDev\<close>

text \<open>\<open>Math.pow(x, 2)\<close> and \<open>Math.sqrt\<close> are taken as correctly rounded.\<close>

definition calculateMean :: "real list \<Rightarrow> real" where
  "calculateMean values =
     (if length values = 0 then 0 else jsDiv (foldl jsAdd 0 values) (real (length values)))"

definition calculateStdDev :: "real list \<Rightarrow> real \<Rightarrow> real" where
  "calculateStdDev values mean =
     (if length values = 0 then 0
      else fl (sqrt (jsDiv (foldl jsAdd 0 (map (\<lambda>v. fl ((jsSub v mean)\<^sup>2)) values))
                      (real (length values)))))"

subsection \<open>generateSubjectRemark, getGradeFromZScore\<close>

definition generateSubjectRemark :: "real \<Rightarrow> string" where
  "generateSubjectRemark score =
     (if score \<ge> 90 then ''Outstanding mastery of subject concepts.''
      else if score \<ge> 80 then ''Excellent performance, shows great potential.''
      else if score \<ge> 70 then ''Very Good. Consistent effort displayed.''
      else if score \<ge> 60 then ''Good. Capable of achieving higher grades.''
      else if score \<ge> 55 then ''Credit. Satisfactory understanding shown.''
      else if score \<ge> 50 then ''Pass. Needs more dedication to studies.''
      else if score \<ge> 40 then ''Weak Pass. Remedial support recommended.''
      else ''Critical Failure. Immediate intervention required.'')"

record gradeInfo =
  g_grade :: string
  g_value :: int
  g_category :: string

definition mkGrade :: "(string \<rightharpoonup> string) \<Rightarrow> string \<Rightarrow> int \<Rightarrow> string \<Rightarrow> gradeInfo" where
  "mkGrade remarksMap g v d = \<lparr>g_grade = g, g_value = v, g_category = orElse (remarksMap g) d\<rparr>"

text \<open>The four literals of the cut-offs, as doubles.\<close>

definition lit1645 :: real where "lit1645 = fl 1.645"
definition lit1036 :: real where "lit1036 = fl 1.036"
definition lit0524 :: real where "lit0524 = fl 0.524"
definition lit2326 :: real where "lit2326 = fl 2.326"

definition getGradeFromZScore :: "real \<Rightarrow> real \<Rightarrow> real \<Rightarrow> (string \<rightharpoonup> string) \<Rightarrow> gradeInfo" where
  "getGradeFromZScore score mean stdDev remarksMap =
     (if stdDev = 0 then mkGrade remarksMap ''C4'' 4 ''Credit''
      else let diff = jsSub score mean in
        if diff \<ge> jsMul lit1645 stdDev then mkGrade remarksMap ''A1'' 1 ''Excellent''
        else if diff \<ge> jsMul lit1036 stdDev then mkGrade remarksMap ''B2'' 2 ''Very Good''
        else if diff \<ge> jsMul lit0524 stdDev then mkGrade remarksMap ''B3'' 3 ''Good''
        else if diff \<ge> 0 then mkGrade remarksMap ''C4'' 4 ''Credit''
        else if diff \<ge> jsMul (- lit0524) stdDev then mkGrade remarksMap ''C5'' 5 ''Credit''
        else if diff \<ge> jsMul (- lit1036) stdDev then mkGrade remarksMap ''C6'' 6 ''Credit''
        else if diff \<ge> jsMul (- lit1645) stdDev then mkGrade remarksMap ''D7'' 7 ''Pass''
        else if diff \<ge> jsMul (- lit2326) stdDev then mkGrade remarksMap ''E8'' 8 ''Pass''
        else mkGrade remarksMap ''F9'' 9 ''Fail'')"

subsection \<open>The data model\<close>

text \<open>
  The type declarations (\<open>types.ts\<close>) are not part of the sources; the records carry the
  properties that \<open>utils.ts\<close> reads and writes. Properties of the input start with \<open>s_\<close>
  where the result has one of the same name. The descriptive properties that the code
  only copies are strings here.
\<close>

record scoreDetail =
  sectionA :: real
  sectionB :: real
  total :: real

record studentData =
  s_id :: int
  s_name :: string
  s_scores :: "string \<rightharpoonup> real"
  s_scoreDetails :: "(string \<rightharpoonup> scoreDetail) option"
  s_subjectRemarks :: "(string \<times> string) list option"
  s_finalRemark :: "string option"
  s_overallRemark :: "string option"
  s_recommendation :: "string option"
  s_attendance :: "string option"
  s_age :: "string option"
  s_promotedTo :: "string option"
  s_conduct :: "string option"
  s_interest :: "string option"
  s_skills :: "string option"

record classStatistics =
  subjectMeans :: "string \<rightharpoonup> real"
  subjectStdDevs :: "string \<rightharpoonup> real"

record staffMember =
  staff_name :: string
  staff_subjects :: "string list option"

text \<open>\<open>zScore\<close> is \<open>None\<close> where JavaScript computes \<open>NaN\<close> from a statistic that is undefined.\<close>

record computedSubject =
  subject :: string
  score :: real
  grade :: string
  gradeValue :: int
  remark :: string
  facilitator :: string
  zScore :: "real option"

record processedStudent =
  p_id :: int
  p_name :: string
  subjects :: "computedSubject list"
  totalScore :: real
  bestSixAggregate :: int
  bestCoreSubjects :: "computedSubject list"
  bestElectiveSubjects :: "computedSubject list"
  overallRemark :: string
  recommendation :: string
  weaknessAnalysis :: string
  category :: string
  rank :: nat
  attendance :: "string option"
  age :: "string option"
  promotedTo :: "string option"
  conduct :: "string option"
  interest :: "string option"
  skills :: "string option"

subsection \<open>calculateClassStatistics\<close>

text \<open>The function mapped over the students, lines 56 to 70.\<close>

definition statsScore :: "real \<Rightarrow> string \<Rightarrow> studentData \<Rightarrow> real" where
  "statsScore scienceBaseScore subj s =
     (case (if subj = ''Science''
            then (case s_scoreDetails s of None \<Rightarrow> None | Some d \<Rightarrow> d ''Science'')
            else None) of
        Some det \<Rightarrow>
          (let rawSum = jsAdd (sectionA det) (sectionB det) in
           if scienceBaseScore = 140 then mathRound (jsMul (jsDiv rawSum 140) 100)
           else mathRound rawSum)
      | None \<Rightarrow> orZero (s_scores s subj))"

definition calculateClassStatistics ::
  "studentData list \<Rightarrow> string list \<Rightarrow> real \<Rightarrow> classStatistics" where
  "calculateClassStatistics students subjectList scienceBaseScore =
     foldl (\<lambda>st subj.
        let scores = map (statsScore scienceBaseScore subj) students;
            mean = calculateMean scores;
            stdDev = calculateStdDev scores mean
        in st\<lparr>subjectMeans := (subjectMeans st)(subj \<mapsto> mean),
               subjectStdDevs := (subjectStdDevs st)(subj \<mapsto> stdDev)\<rparr>)
       \<lparr>subjectMeans = Map.empty, subjectStdDevs = Map.empty\<rparr> subjectList"

subsection \<open>processStudentData\<close>

text \<open>The score of a subject, lines 95 to 106.\<close>

definition subjectScore :: "real \<Rightarrow> string \<Rightarrow> studentData \<Rightarrow> real" where
  "subjectScore scienceBaseScore subj student =
     (let score = orZero (s_scores student subj) in
      if subj = ''Science'' then
        (case s_scoreDetails student of
           None \<Rightarrow> score
         | Some d \<Rightarrow>
            (case d ''Science'' of
               None \<Rightarrow> score
             | Some det \<Rightarrow>
                (let rawSum = jsAdd (sectionA det) (sectionB det) in
                 if scienceBaseScore = 140 then mathRound (jsMul (jsDiv rawSum 140) 100)
                 else mathRound rawSum)))
      else score)"

text \<open>
  The call of \<open>getGradeFromZScore\<close> with the statistics read from the two maps. A subject
  that a map lacks reads as \<open>undefined\<close>, which is not \<open>=== 0\<close> and turns what is computed
  from it into \<open>NaN\<close>, and every comparison with \<open>NaN\<close> is false. Without a standard
  deviation the eight products are \<open>NaN\<close> and the only test left is \<open>diff >= 0\<close>; without a
  mean \<open>diff\<close> is \<open>NaN\<close> and no test holds.
\<close>

definition gradeWithStats ::
  "real \<Rightarrow> real option \<Rightarrow> real option \<Rightarrow> (string \<rightharpoonup> string) \<Rightarrow> gradeInfo" where
  "gradeWithStats sc mean stdDev remarksMap =
     (case stdDev of
        None \<Rightarrow>
         (case mean of
            Some m \<Rightarrow> if jsSub sc m \<ge> 0 then mkGrade remarksMap ''C4'' 4 ''Credit''
                      else mkGrade remarksMap ''F9'' 9 ''Fail''
          | None \<Rightarrow> mkGrade remarksMap ''F9'' 9 ''Fail'')
      | Some sd \<Rightarrow>
         (case mean of
            Some m \<Rightarrow> getGradeFromZScore sc m sd remarksMap
          | None \<Rightarrow> if sd = 0 then mkGrade remarksMap ''C4'' 4 ''Credit''
                    else mkGrade remarksMap ''F9'' 9 ''Fail''))"

definition zScoreWithStats :: "real \<Rightarrow> real option \<Rightarrow> real option \<Rightarrow> real option" where
  "zScoreWithStats sc mean stdDev =
     (case stdDev of
        None \<Rightarrow> None
      | Some sd \<Rightarrow> if sd = 0 then Some 0
                   else (case mean of None \<Rightarrow> None | Some m \<Rightarrow> Some (jsDiv (jsSub sc m) sd)))"

definition facilitatorFor :: "staffMember list \<Rightarrow> (string \<rightharpoonup> string) \<Rightarrow> string \<Rightarrow> string" where
  "facilitatorFor staffList facilitatorMap subj =
     (case List.find (\<lambda>s. case staff_subjects s of None \<Rightarrow> False | Some subs \<Rightarrow> subj \<in> set subs)
             staffList of
        Some staff \<Rightarrow> staff_name staff
      | None \<Rightarrow> orElse (facilitatorMap subj) ''TBA'')"

text \<open>The body of the loop over the subject list, lines 94 to 127.\<close>

definition computeSubject ::
  "classStatistics \<Rightarrow> (string \<rightharpoonup> string) \<Rightarrow> (string \<rightharpoonup> string) \<Rightarrow> staffMember list \<Rightarrow> real
     \<Rightarrow> studentData \<Rightarrow> string \<Rightarrow> computedSubject" where
  "computeSubject stats facilitatorMap gradingRemarks staffList scienceBaseScore student subj =
     (let sc = subjectScore scienceBaseScore subj student;
          mean = subjectMeans stats subj;
          stdDev = subjectStdDevs stats subj;
          g = gradeWithStats sc mean stdDev gradingRemarks
      in \<lparr>subject = subj, score = sc, grade = g_grade g, gradeValue = g_value g,
          remark = generateSubjectRemark sc,
          facilitator = facilitatorFor staffList facilitatorMap subj,
          zScore = zScoreWithStats sc mean stdDev\<rparr>)"

definition sortFn :: "computedSubject \<Rightarrow> computedSubject \<Rightarrow> real" where
  "sortFn a b = (if gradeValue a \<noteq> gradeValue b then of_int (gradeValue a - gradeValue b)
                 else score b - score a)"

definition categoryOf :: "int \<Rightarrow> string" where
  "categoryOf bestSix =
     (let category = ''Average'' in
      if bestSix \<le> 10 then ''Distinction''
      else if bestSix \<le> 20 then ''Merit''
      else if bestSix \<le> 36 then ''Pass''
      else ''Fail'')"

definition nonBlank :: "string option \<Rightarrow> bool" where
  "nonBlank t = (case t of None \<Rightarrow> False | Some s \<Rightarrow> s \<noteq> [] \<and> trim s \<noteq> [])"

definition weakNote :: "computedSubject list \<Rightarrow> string" where
  "weakNote weakSubjects =
     ''Needs urgent improvement in: '' @ join '', '' (map subject weakSubjects) @ ''.''"

text \<open>Lines 153 to 186: the pair of \<open>combinedOverallRemark\<close> and \<open>weaknessAnalysis\<close>.\<close>

definition assembleRemarks ::
  "studentData \<Rightarrow> computedSubject list \<Rightarrow> string \<Rightarrow> int \<Rightarrow> string \<times> string" where
  "assembleRemarks student computedSubjects cat bestSix =
     (if nonBlank (s_finalRemark student) then
        (let weakSubjects = filter (\<lambda>s. gradeValue s \<ge> 7) computedSubjects
         in (the (s_finalRemark student),
             if length weakSubjects > 0 then weakNote weakSubjects else []))
      else
        (let weakSubjects = filter (\<lambda>s. gradeValue s \<ge> 7) computedSubjects;
             sortedByScoreAsc = sortBy (\<lambda>a b. score a - score b) computedSubjects;
             weakness =
               (if length weakSubjects > 0 then weakNote weakSubjects
                else ''Lowest performance in '' @
                  (case sortedByScoreAsc of [] \<Rightarrow> ''N/A'' | c # _ \<Rightarrow> orElse (Some (subject c)) ''N/A'')
                  @ ''.'');
             facilitatorRemarksList =
               (case s_subjectRemarks student of
                  None \<Rightarrow> []
                | Some rs \<Rightarrow> map (\<lambda>(sub, text). sub @ '': '' @ text)
                              (filter (\<lambda>(sub, text). nonBlank (Some text)) rs));
             facilitatorRemarksStr =
               (if length facilitatorRemarksList > 0
                then '' [Facilitator Notes: '' @ join ''; '' facilitatorRemarksList @ '']''
                else []);
             generatedPerformanceSummary =
               ''Overall performance is '' @ cat @ ''. '' @
                 (if bestSix \<le> 15 then ''Keep up the excellent work!''
                  else ''More effort required to improve aggregate.'');
             classTeacherRemark = orElse (s_overallRemark student) generatedPerformanceSummary
         in (weakness @ facilitatorRemarksStr @ [CHR 0x0A, CHR 0x0A] @ classTeacherRemark,
             weakness)))"

definition defaultRecommendation :: string where
  "defaultRecommendation = ''Encouraged to maintain focus on core subjects. Recommended to attend extra classes for weak areas identified above. Parents are advised to supervise evening studies.''"

text \<open>The function mapped over the students, lines 90 to 210.\<close>

definition processStudent ::
  "string list \<Rightarrow> classStatistics \<Rightarrow> (string \<rightharpoonup> string) \<Rightarrow> string list \<Rightarrow> (string \<rightharpoonup> string)
     \<Rightarrow> staffMember list \<Rightarrow> real \<Rightarrow> studentData \<Rightarrow> processedStudent" where
  "processStudent coreSubjects stats facilitatorMap subjectList gradingRemarks staffList
       scienceBaseScore student =
     (let computedSubjects =
            map (computeSubject stats facilitatorMap gradingRemarks staffList scienceBaseScore
                   student) subjectList;
          studentTotalNormalizedScore = foldl (\<lambda>acc c. acc + score c) 0 computedSubjects;
          cores = filter (\<lambda>s. subject s \<in> set coreSubjects) computedSubjects;
          electives = filter (\<lambda>s. subject s \<notin> set coreSubjects) computedSubjects;
          best4Cores = take 4 (sortBy sortFn cores);
          best2Electives = take 2 (sortBy sortFn electives);
          bestSix = foldl (\<lambda>sum s. sum + gradeValue s) 0 best4Cores
                  + foldl (\<lambda>sum s. sum + gradeValue s) 0 best2Electives;
          cat = categoryOf bestSix;
          remarks = assembleRemarks student computedSubjects cat bestSix
      in \<lparr>p_id = s_id student, p_name = s_name student, subjects = computedSubjects,
          totalScore = studentTotalNormalizedScore, bestSixAggregate = bestSix,
          bestCoreSubjects = best4Cores, bestElectiveSubjects = best2Electives,
          overallRemark = fst remarks,
          recommendation = orElse (s_recommendation student) defaultRecommendation,
          weaknessAnalysis = snd remarks, category = cat, rank = 0,
          attendance = Some (orElse (s_attendance student) ''0''),
          age = s_age student, promotedTo = s_promotedTo student, conduct = s_conduct student,
          interest = s_interest student, skills = s_skills student\<rparr>)"

definition rankCmp :: "processedStudent \<Rightarrow> processedStudent \<Rightarrow> real" where
  "rankCmp a b = (if bestSixAggregate a \<noteq> bestSixAggregate b
                  then of_int (bestSixAggregate a - bestSixAggregate b)
                  else totalScore b - totalScore a)"

definition assignRanks :: "processedStudent list \<Rightarrow> processedStudent list" where
  "assignRanks ps = map (\<lambda>(p, index). p\<lparr>rank := index + 1\<rparr>) (zip ps [0..<length ps])"

definition processStudentData ::
  "string list \<Rightarrow> classStatistics \<Rightarrow> studentData list \<Rightarrow> (string \<rightharpoonup> string) \<Rightarrow> string list
     \<Rightarrow> (string \<rightharpoonup> string) \<Rightarrow> staffMember list \<Rightarrow> real \<Rightarrow> processedStudent list" where
  "processStudentData coreSubjects stats students facilitatorMap subjectList gradingRemarks
       staffList scienceBaseScore =
     assignRanks (sortBy rankCmp
       (map (processStudent coreSubjects stats facilitatorMap subjectList gradingRemarks
               staffList scienceBaseScore) students))"

subsection \<open>calculateFacilitatorStats\<close>

text \<open>
  \<open>statsMap\<close> and \<open>gradeCounts\<close> are objects used as dictionaries: association lists in
  the order of insertion, which \<open>Object.values\<close> follows (no key of \<open>statsMap\<close> is an array
  index, since each contains \<open>||\<close>). Writing a property keeps the place of a key that is
  there and puts a new key last, as \<^const>\<open>AList.update\<close> does. The properties that an
  object inherits from \<open>Object.prototype\<close> are left out: no key of \<open>statsMap\<close> and none of
  the nine grade bands is the name of one.
\<close>

record facilitatorStats =
  facilitatorName :: string
  fs_subject :: string
  studentCount :: nat
  gradeCounts :: "(string \<times> nat) list"
  totalGradeValue :: int
  performancePercentage :: real
  averageGradeValue :: real
  performanceGrade :: string

definition gradeBands :: "string list" where
  "gradeBands = [''A1'', ''B2'', ''B3'', ''C4'', ''C5'', ''C6'', ''D7'', ''E8'', ''F9'']"

definition newEntry :: "computedSubject \<Rightarrow> facilitatorStats" where
  "newEntry sub =
     \<lparr>facilitatorName = facilitator sub, fs_subject = subject sub, studentCount = 0,
      gradeCounts = map (\<lambda>g. (g, 0)) gradeBands, totalGradeValue = 0,
      performancePercentage = 0, averageGradeValue = 0, performanceGrade = []\<rparr>"

text \<open>\<open>gradeCounts[g] || 0\<close>\<close>

definition countOf :: "(string \<times> nat) list \<Rightarrow> string \<Rightarrow> nat" where
  "countOf gc g = (case map_of gc g of None \<Rightarrow> 0 | Some n \<Rightarrow> n)"

text \<open>The three updates of the entry, lines 244 to 246.\<close>

definition addToEntry :: "facilitatorStats \<Rightarrow> computedSubject \<Rightarrow> facilitatorStats" where
  "addToEntry entry sub =
     entry\<lparr>studentCount := studentCount entry + 1,
           gradeCounts := AList.update (grade sub)
                            (countOf (gradeCounts entry) (grade sub) + 1) (gradeCounts entry),
           totalGradeValue := totalGradeValue entry + gradeValue sub\<rparr>"

text \<open>
  The body of the inner loop, lines 229 to 246. The entry is the one stored under the key,
  or the fresh one that the code stores first when there is none.
\<close>

definition accumulate ::
  "(string \<times> facilitatorStats) list \<Rightarrow> computedSubject \<Rightarrow> (string \<times> facilitatorStats) list" where
  "accumulate statsMap sub =
     (let key = facilitator sub @ ''||'' @ subject sub;
          entry = (case map_of statsMap key of None \<Rightarrow> newEntry sub | Some e \<Rightarrow> e)
      in AList.update key (addToEntry entry sub) statsMap)"

text \<open>The function mapped over the values of \<open>statsMap\<close>, lines 250 to 272.\<close>

definition finalize :: "facilitatorStats \<Rightarrow> facilitatorStats" where
  "finalize stat =
     (let avg = (if studentCount stat > 0
                 then jsDiv (real_of_int (totalGradeValue stat)) (real (studentCount stat))
                 else 0);
          totalExpectedValue = studentCount stat * 9;
          percentage = (if totalExpectedValue > 0
                        then jsMul (jsSub 1 (jsDiv (real_of_int (totalGradeValue stat))
                                               (real totalExpectedValue))) 100
                        else 0);
          perfGrade = (if percentage \<ge> 80 then ''A1''
                       else if percentage \<ge> 70 then ''B2''
                       else if percentage \<ge> 60 then ''B3''
                       else if percentage \<ge> 50 then ''C4''
                       else if percentage \<ge> 45 then ''C5''
                       else if percentage \<ge> 40 then ''C6''
                       else if percentage \<ge> 35 then ''D7''
                       else if percentage \<ge> 30 then ''E8''
                       else ''F9'')
      in stat\<lparr>averageGradeValue := avg, performancePercentage := toFixed2 percentage,
               performanceGrade := perfGrade\<rparr>)"

definition collectStats :: "processedStudent list \<Rightarrow> (string \<times> facilitatorStats) list" where
  "collectStats processedStudents =
     foldl (\<lambda>statsMap student. foldl accumulate statsMap (subjects student)) [] processedStudents"

definition calculateFacilitatorStats :: "processedStudent list \<Rightarrow> facilitatorStats list" where
  "calculateFacilitatorStats processedStudents =
     sortBy (\<lambda>a b. performancePercentage b - performancePercentage a)
       (map finalize (map snd (collectStats processedStudents)))"

subsection \<open>Sort keys\<close>


definition rankKey :: "processedStudent \<Rightarrow> int \<times> real" where
  "rankKey p = (bestSixAggregate p, - totalScore p)"

subsection \<open>An example cohort\<close>

definition exStats :: classStatistics where
  "exStats = \<lparr>subjectMeans = [''Math'' \<mapsto> 50, ''Art'' \<mapsto> 50],
              subjectStdDevs = [''Math'' \<mapsto> 10, ''Art'' \<mapsto> 10]\<rparr>"

definition exStudent :: "int \<Rightarrow> real \<Rightarrow> real \<Rightarrow> string option \<Rightarrow> string option \<Rightarrow> studentData" where
  "exStudent i m a fr att =
     \<lparr>s_id = i, s_name = ''N'', s_scores = [''Math'' \<mapsto> m, ''Art'' \<mapsto> a],
      s_scoreDetails = None, s_subjectRemarks = None, s_finalRemark = fr,
      s_overallRemark = None, s_recommendation = None, s_attendance = att,
      s_age = Some ''12'', s_promotedTo = None, s_conduct = None, s_interest = None,
      s_skills = None\<rparr>"

definition exRun :: "string list \<Rightarrow> studentData list \<Rightarrow> processedStudent list" where
  "exRun subjectList students =
     processStudentData [''Math'', ''Science''] exStats students Map.empty subjectList
       Map.empty [] 100"

definition exScience :: studentData where
  "exScience = (exStudent 1 0 0 None None)
     \<lparr>s_scores := [''Science'' \<mapsto> 80],
      s_scoreDetails := Some [''Science'' \<mapsto> \<lparr>sectionA = 30, sectionB = 50, total = 80\<rparr>]\<rparr>"

definition exScienceHalf :: studentData where
  "exScienceHalf = (exStudent 1 0 0 None None)
     \<lparr>s_scores := [''Science'' \<mapsto> 58],
      s_scoreDetails := Some [''Science'' \<mapsto> \<lparr>sectionA = 30.5, sectionB = 50, total = 58\<rparr>]\<rparr>"

definition exSubject :: "string \<Rightarrow> string \<Rightarrow> string \<Rightarrow> int \<Rightarrow> computedSubject" where
  "exSubject fac subj g v =
     \<lparr>subject = subj, score = 50, grade = g, gradeValue = v, remark = [], facilitator = fac,
      zScore = Some 0\<rparr>"

definition exProcessed :: "computedSubject list \<Rightarrow> processedStudent" where
  "exProcessed cs =
     \<lparr>p_id = 1, p_name = ''N'', subjects = cs, totalScore = 0, bestSixAggregate = 0,
      bestCoreSubjects = [], bestElectiveSubjects = [], overallRemark = [], recommendation = [],
      weaknessAnalysis = [], category = ''Fail'', rank = 1, attendance = Some ''0'', age = None,
      promotedTo = None, conduct = None, interest = None, skills = None\<rparr>"

text \<open>A cohort of 160 students: 143 score 52 in Math and 17 score 48.\<close>

definition exCohort160 :: "studentData list" where
  "exCohort160 = map (\<lambda>i. exStudent (int i) 52 0 None None) [1000..<1143]
               @ map (\<lambda>i. exStudent (int i) 48 0 None None) [1143..<1160]"


section \<open>Properties\<close>

subsection \<open>Rounding to a double\<close>

lemma pow2_succ: "(2::real) powi (e + 1) = 2 powi e * 2"
  by (simp add: power_int_add)

lemma pow2_pred: "(2::real) powi (e - 1) = 2 powi e / 2"
  by (simp add: power_int_diff)

lemma expo_bounds:
  "0 < x \<Longrightarrow> 2 powi (expo x) \<le> x \<and> x < 2 powi (expo x + 1)"
proof (induction x rule: expo.induct)
  case (1 x)
  show ?case
  proof (cases "2 \<le> x")
    case True
    with 1 have ih: "2 powi (expo (x / 2)) \<le> x / 2" "x / 2 < 2 powi (expo (x / 2) + 1)"
      by simp_all
    from True 1(3) have e: "expo x = expo (x / 2) + 1"
      by (simp add: expo.simps [of x])
    from ih have "2 powi (expo (x / 2)) * 2 \<le> x" "x < 2 powi (expo (x / 2) + 1) * 2"
      by linarith+
    then show ?thesis
      unfolding e pow2_succ by simp
  next
    case False
    show ?thesis
    proof (cases "x < 1")
      case True
      with False 1 have ih: "2 powi (expo (2 * x)) \<le> 2 * x" "2 * x < 2 powi (expo (2 * x) + 1)"
        by simp_all
      from True False 1(3) have e: "expo x = expo (2 * x) - 1"
        by (simp add: expo.simps [of x])
      from ih have "2 powi (expo (2 * x)) / 2 \<le> x" "x < 2 powi (expo (2 * x))"
        unfolding pow2_succ by linarith+
      then show ?thesis
        unfolding e pow2_pred by simp
    next
      case False
      with \<open>\<not> 2 \<le> x\<close> 1(3) have "expo x = 0"
        by (simp add: expo.simps [of x])
      with False \<open>\<not> 2 \<le> x\<close> show ?thesis by simp
    qed
  qed
qed

lemma roundEven_half: "\<bar>of_int (roundEven m) - m\<bar> \<le> 1 / 2"
  unfolding roundEven_def Let_def by (auto; linarith)

lemma roundEven_nearest: "\<bar>of_int (roundEven m) - m\<bar> \<le> \<bar>of_int j - m\<bar>"
proof (cases "j = roundEven m")
  case True
  then show ?thesis by simp
next
  case False
  then have "1 \<le> \<bar>j - roundEven m\<bar>" by linarith
  then have "1 \<le> \<bar>real_of_int j - of_int (roundEven m)\<bar>"
    by (metis of_int_1 of_int_abs of_int_diff of_int_le_iff)
  with roundEven_half [of m] show ?thesis by linarith
qed


lemma fl_pos: "0 < x \<Longrightarrow>
  fl x = of_int (roundEven (x / 2 powi (max (expo x - 52) (- 1074)))) * 2 powi (max (expo x - 52) (- 1074))"
  by (simp add: fl_def Let_def)

lemma fl_minus: "fl (- x) = - fl x"
  by (simp add: fl_def Let_def)

lemma fl_0: "fl 0 = 0"
  by (simp add: fl_def)

lemma fl_pos_nearest:
  fixes k' :: int
  assumes x: "0 < x" and q': "- 1074 \<le> q'" and k': "\<bar>k'\<bar> \<le> 2 ^ 53"
  shows "\<bar>fl x - x\<bar> \<le> \<bar>of_int k' * 2 powi q' - x\<bar>"
proof -
  define e where "e = expo x"
  define q where "q = max (e - 52) (- 1074)"
  define m where "m = x / 2 powi q"
  define r where "r = roundEven m"
  have P: "0 < (2::real) powi q" by simp
  have flx: "fl x = of_int r * 2 powi q"
    using x by (simp add: fl_pos e_def q_def m_def r_def)
  have xm: "x = m * 2 powi q" by (simp add: m_def)
  have scale: "\<bar>of_int r * 2 powi q - x\<bar> \<le> \<bar>of_int j * 2 powi q - x\<bar>" for j :: int
  proof -
    have "\<bar>of_int r - m\<bar> \<le> \<bar>of_int j - m\<bar>"
      unfolding r_def by (rule roundEven_nearest)
    then have "\<bar>of_int r - m\<bar> * 2 powi q \<le> \<bar>of_int j - m\<bar> * 2 powi q"
      using P by (simp add: mult_right_mono)
    moreover have "\<bar>of_int i * 2 powi q - x\<bar> = \<bar>of_int i - m\<bar> * 2 powi q" for i :: int
    proof -
      have "of_int i * 2 powi q - x = (of_int i - m) * 2 powi q"
        by (simp add: xm left_diff_distrib)
      then show ?thesis
        using P by (simp add: abs_mult)
    qed
    ultimately show ?thesis by simp
  qed
  show ?thesis
  proof (cases "q \<le> q'")
    case True
    have "(2::real) powi q' = 2 powi (q' - q) * 2 powi q"
      by (simp add: power_int_add [symmetric])
    also have "(2::real) powi (q' - q) = 2 ^ nat (q' - q)"
      using True by (simp add: power_int_nonneg_exp)
    finally have "real_of_int k' * 2 powi q' = of_int (k' * 2 ^ nat (q' - q)) * 2 powi q"
      by simp
    with scale [of "k' * 2 ^ nat (q' - q)"] show ?thesis
      by (simp only: flx)
  next
    case False
    with q' have qe: "q = e - 52"
      unfolding q_def by linarith
    from expo_bounds [OF x] have lo: "2 powi e \<le> x"
      by (simp add: e_def)
    have "\<bar>real_of_int k' * 2 powi q'\<bar> = \<bar>real_of_int k'\<bar> * 2 powi q'"
      by (simp add: abs_mult)
    also have "\<dots> \<le> 2 ^ 53 * 2 powi q'"
    proof -
      from k' have "\<bar>real_of_int k'\<bar> \<le> 2 ^ 53"
        by (metis of_int_abs of_int_le_iff of_int_numeral of_int_power)
      then show ?thesis by (simp add: mult_right_mono)
    qed
    also have "\<dots> \<le> 2 ^ 53 * 2 powi (q - 1)"
    proof -
      from False have "q' \<le> q - 1" by simp
      then have "(2::real) powi q' \<le> 2 powi (q - 1)"
        by (intro power_int_increasing) simp_all
      then show ?thesis by simp
    qed
    also have "\<dots> = 2 powi e"
    proof -
      have "(2::real) ^ 53 * 2 powi (q - 1) = 2 powi 53 * 2 powi (q - 1)"
        by simp
      also have "\<dots> = 2 powi (53 + (q - 1))"
        by (rule power_int_add [symmetric]) simp
      also have "53 + (q - 1) = e" using qe by simp
      finally show ?thesis .
    qed
    finally have d: "real_of_int k' * 2 powi q' \<le> 2 powi e"
      by linarith
    have "(2::real) powi 52 * 2 powi q = 2 powi (52 + q)"
      by (rule power_int_add [symmetric]) simp
    also have "52 + q = e" using qe by simp
    finally have "(2::real) powi e = 2 powi 52 * 2 powi q" by simp
    then have "(2::real) powi e = of_int (2 ^ 52) * 2 powi q"
      by simp
    with scale [of "2 ^ 52"] have "\<bar>fl x - x\<bar> \<le> \<bar>2 powi e - x\<bar>"
      by (simp only: flx)
    with lo d show ?thesis by linarith
  qed
qed

lemma fl_nearest:
  fixes k' :: int
  assumes q': "- 1074 \<le> q'" and k': "\<bar>k'\<bar> \<le> 2 ^ 53"
  shows "\<bar>fl x - x\<bar> \<le> \<bar>of_int k' * 2 powi q' - x\<bar>"
proof -
  consider "x = 0" | "0 < x" | "x < 0" by linarith
  then show ?thesis
  proof cases
    case 1
    then show ?thesis by (simp add: fl_0)
  next
    case 2
    then show ?thesis using q' k' by (rule fl_pos_nearest)
  next
    case 3
    then have "0 < - x" by simp
    moreover from k' have "\<bar>- k'\<bar> \<le> 2 ^ 53" by simp
    ultimately have "\<bar>fl (- x) - (- x)\<bar> \<le> \<bar>of_int (- k') * 2 powi q' - (- x)\<bar>"
      using q' by (intro fl_pos_nearest)
    then show ?thesis
      by (simp add: fl_minus)
  qed
qed


lemma fl_pos_repr:
  assumes x: "0 < x"
  shows "\<exists>(k::int) q. - 1074 \<le> q \<and> \<bar>k\<bar> \<le> 2 ^ 53 \<and> fl x = of_int k * 2 powi q"
proof -
  define e where "e = expo x"
  define q where "q = max (e - 52) (- 1074)"
  define m where "m = x / 2 powi q"
  define r where "r = roundEven m"
  have flx: "fl x = of_int r * 2 powi q"
    using x by (simp add: fl_pos e_def q_def m_def r_def)
  have m0: "0 \<le> m" using x by (simp add: m_def)
  have "x < 2 powi (e + 1)"
    using expo_bounds [OF x] by (simp add: e_def)
  also have "(2::real) powi (e + 1) \<le> 2 powi (53 + q)"
    by (intro power_int_increasing) (simp_all add: q_def)
  also have "(2::real) powi (53 + q) = 2 powi 53 * 2 powi q"
    by (rule power_int_add) simp
  finally have "x < 2 ^ 53 * 2 powi q" by simp
  then have m1: "m < 2 ^ 53"
    by (simp add: m_def field_simps)
  have "\<bar>of_int r - m\<bar> \<le> \<bar>0 - m\<bar>" "\<bar>of_int r - m\<bar> \<le> \<bar>2 ^ 53 - m\<bar>"
    using roundEven_nearest [of m 0] roundEven_nearest [of m "2 ^ 53"]
    by (simp_all add: r_def)
  with m0 m1 have "0 \<le> real_of_int r" "real_of_int r \<le> 2 ^ 53"
    by linarith+
  then have "0 \<le> r" "real_of_int r \<le> real_of_int (2 ^ 53)"
    by simp_all
  then have "0 \<le> r" "r \<le> 2 ^ 53"
    by (simp_all only: of_int_le_iff)
  then have "\<bar>r\<bar> \<le> 2 ^ 53" by simp
  moreover have "- 1074 \<le> q" by (simp add: q_def)
  ultimately show ?thesis using flx by blast
qed

lemma fl_repr: "\<exists>(k::int) q. - 1074 \<le> q \<and> \<bar>k\<bar> \<le> 2 ^ 53 \<and> fl x = of_int k * 2 powi q"
proof -
  consider "x = 0" | "0 < x" | "x < 0" by linarith
  then show ?thesis
  proof cases
    case 1
    have "- 1074 \<le> (0::int) \<and> \<bar>0::int\<bar> \<le> 2 ^ 53 \<and> fl x = of_int 0 * 2 powi 0"
      using 1 by (simp add: fl_0)
    then show ?thesis by blast
  next
    case 2
    then show ?thesis by (rule fl_pos_repr)
  next
    case 3
    then have "0 < - x" by simp
    then obtain k :: int and q where kq: "- 1074 \<le> q" "\<bar>k\<bar> \<le> 2 ^ 53" "fl (- x) = of_int k * 2 powi q"
      using fl_pos_repr by blast
    then have "- 1074 \<le> q \<and> \<bar>- k\<bar> \<le> 2 ^ 53 \<and> fl x = of_int (- k) * 2 powi q"
      by (simp add: fl_minus)
    then show ?thesis by blast
  qed
qed

lemma fl_mono:
  assumes "x \<le> y"
  shows "fl x \<le> fl y"
proof (rule ccontr)
  assume "\<not> fl x \<le> fl y"
  then have lt: "fl y < fl x" by simp
  with assms have xy: "x < y" by (cases "x = y") auto
  obtain k :: int and q where "- 1074 \<le> q" "\<bar>k\<bar> \<le> 2 ^ 53" "fl y = of_int k * 2 powi q"
    using fl_repr by blast
  then have a: "\<bar>fl x - x\<bar> \<le> \<bar>fl y - x\<bar>"
    using fl_nearest [of q k x] by simp
  obtain k' :: int and q' where "- 1074 \<le> q'" "\<bar>k'\<bar> \<le> 2 ^ 53" "fl x = of_int k' * 2 powi q'"
    using fl_repr by blast
  then have b: "\<bar>fl y - y\<bar> \<le> \<bar>fl x - y\<bar>"
    using fl_nearest [of q' k' y] by simp
  from a b lt xy show False by linarith
qed

lemma fl_id:
  fixes k :: int
  assumes "- 1074 \<le> q" and "\<bar>k\<bar> \<le> 2 ^ 53" and "x = of_int k * 2 powi q"
  shows "fl x = x"
  using fl_nearest [OF assms(1,2), of x] assms(3) by simp

lemma fl_of_int: "\<bar>n\<bar> \<le> 2 ^ 53 \<Longrightarrow> fl (of_int n) = of_int n"
  by (rule fl_id [of 0 n]) simp_all

lemma fl_numeral [simp]: "numeral w \<le> (2::int) ^ 53 \<Longrightarrow> fl (numeral w) = numeral w"
  using fl_of_int [of "numeral w"] by simp

lemma fl_neg_numeral [simp]: "numeral w \<le> (2::int) ^ 53 \<Longrightarrow> fl (- numeral w) = - numeral w"
  by (simp add: fl_minus)

lemma fl_1 [simp]: "fl 1 = 1"
  using fl_of_int [of 1] by simp

lemma fl_idem: "fl (fl x) = fl x"
proof -
  obtain k :: int and q where "- 1074 \<le> q" "\<bar>k\<bar> \<le> 2 ^ 53" "fl x = of_int k * 2 powi q"
    using fl_repr by blast
  then show ?thesis by (rule fl_id)
qed

text \<open>
  Some values of \<open>fl\<close>: the double nearest to 0.1, and whole numbers of 54 bits going to
  the even neighbour.
\<close>

lemma fl_examples:
  "fl 0.1 = 3602879701896397 / 36028797018963968"
  "fl (2 ^ 53 + 1) = 2 ^ 53"
  "fl (2 ^ 53 + 3) = 2 ^ 53 + 4"
  unfolding fl_def Let_def by (simp_all add: expo.simps roundEven_def)

text \<open>The cut-offs for the standard deviation 10, and the double nearest to 16.45.\<close>

lemma cutoffs_10:
  "jsMul lit1645 10 = 4630263366890291 / 281474976710656"
  "jsMul lit1036 10 = 729020189680599 / 70368744177664"
  "jsMul lit0524 10 = 2949857755927675 / 562949953421312"
  "jsMul (- lit0524) 10 = - (2949857755927675 / 562949953421312)"
  "jsMul (- lit1036) 10 = - (729020189680599 / 70368744177664)"
  "jsMul (- lit1645) 10 = - (4630263366890291 / 281474976710656)"
  "jsMul (- lit2326) 10 = - (6547107958289859 / 281474976710656)"
  unfolding jsMul_def lit1645_def lit1036_def lit0524_def lit2326_def fl_def Let_def
  by (simp_all add: expo.simps roundEven_def)

lemma fl_16_45: "fl 16.45 = 4630263366890291 / 281474976710656"
  unfolding fl_def Let_def by (simp add: expo.simps roundEven_def)

lemmas ev_defs = exRun_def exStats_def exStudent_def processStudentData_def processStudent_def
  computeSubject_def subjectScore_def gradeWithStats_def zScoreWithStats_def facilitatorFor_def
  getGradeFromZScore_def mkGrade_def sortFn_def categoryOf_def assembleRemarks_def nonBlank_def
  weakNote_def rankCmp_def assignRanks_def sortBy_def generateSubjectRemark_def Let_def
  defaultRecommendation_def trim_def isWhiteSpace_def jsSub_def fl_0 cutoffs_10

lemmas fs_defs = calculateFacilitatorStats_def collectStats_def accumulate_def addToEntry_def
  newEntry_def finalize_def countOf_def gradeBands_def sortBy_def exProcessed_def
  exSubject_def Let_def

subsection \<open>The letter grade\<close>

lemma g_value_getGradeFromZScore:
  "g_value (getGradeFromZScore sc mean stdDev remarksMap) =
     (if stdDev = 0 then 4
      else if jsSub sc mean \<ge> jsMul lit1645 stdDev then 1
      else if jsSub sc mean \<ge> jsMul lit1036 stdDev then 2
      else if jsSub sc mean \<ge> jsMul lit0524 stdDev then 3
      else if jsSub sc mean \<ge> 0 then 4
      else if jsSub sc mean \<ge> jsMul (- lit0524) stdDev then 5
      else if jsSub sc mean \<ge> jsMul (- lit1036) stdDev then 6
      else if jsSub sc mean \<ge> jsMul (- lit1645) stdDev then 7
      else if jsSub sc mean \<ge> jsMul (- lit2326) stdDev then 8
      else 9)"
  by (simp add: getGradeFromZScore_def mkGrade_def Let_def)

text \<open>
  C1, as the code has it. Whatever the remark map, \<open>getGradeFromZScore\<close> returns grade C4
  with value 4 when \<open>stdDev\<close> is 0, and otherwise the band of the first cut-off that the
  difference reaches, in the order A1, B2, B3, C4, C5, C6, D7, E8, and F9 when it reaches
  none, where the difference is \<open>score - mean\<close> rounded to a double and each cut-off is
  the product of the double literal (1.645, 1.036, 0.524, 0, -0.524, -1.036, -1.645,
  -2.326) and \<open>stdDev\<close>, rounded to a double.
\<close>

theorem getGradeFromZScore_bands:
  "(g_grade (getGradeFromZScore sc mean stdDev remarksMap),
    g_value (getGradeFromZScore sc mean stdDev remarksMap)) =
     (if stdDev = 0 then (''C4'', 4)
      else if fl (sc - mean) \<ge> fl (fl 1.645 * stdDev) then (''A1'', 1)
      else if fl (sc - mean) \<ge> fl (fl 1.036 * stdDev) then (''B2'', 2)
      else if fl (sc - mean) \<ge> fl (fl 0.524 * stdDev) then (''B3'', 3)
      else if fl (sc - mean) \<ge> 0 then (''C4'', 4)
      else if fl (sc - mean) \<ge> fl (- fl 0.524 * stdDev) then (''C5'', 5)
      else if fl (sc - mean) \<ge> fl (- fl 1.036 * stdDev) then (''C6'', 6)
      else if fl (sc - mean) \<ge> fl (- fl 1.645 * stdDev) then (''D7'', 7)
      else if fl (sc - mean) \<ge> fl (- fl 2.326 * stdDev) then (''E8'', 8)
      else (''F9'', 9))"
  unfolding getGradeFromZScore_def mkGrade_def Let_def jsSub_def jsMul_def
    lit1645_def lit1036_def lit0524_def lit2326_def
  by simp

text \<open>
  The double nearest to 16.45 lies below 16.45, so against the mean 0 and the standard
  deviation 10 it is short of 1.645 times 10 and reaches 1.036 times 10: band B2 by the
  exact cut-offs. The code rounds the product 1.645 * 10 to that same double and returns
  A1.
\<close>

theorem getGradeFromZScore_cutoff_counterexample:
  "g_grade (getGradeFromZScore (fl 16.45) 0 10 Map.empty) = ''A1''
   \<and> g_value (getGradeFromZScore (fl 16.45) 0 10 Map.empty) = 1
   \<and> fl 16.45 - 0 < 1.645 * 10
   \<and> 1.036 * 10 \<le> fl 16.45 - 0"
proof -
  have "fl (4630263366890291 / 281474976710656) = 4630263366890291 / 281474976710656"
    using fl_idem [of "16.45"] unfolding fl_16_45 .
  then show ?thesis
    unfolding fl_16_45
    by (simp add: getGradeFromZScore_def mkGrade_def Let_def jsSub_def cutoffs_10)
qed

text \<open>
  C8. For a fixed mean and a positive \<open>stdDev\<close>, the grade value never improves as the
  relative performance \<open>(score - mean) / stdDev\<close> worsens: a score whose z-score is at least
  that of another gets a grade value that is at most the other's.
\<close>

theorem getGradeFromZScore_monotone:
  assumes "0 < stdDev" and "(s2 - mean) / stdDev \<le> (s1 - mean) / stdDev"
  shows "g_value (getGradeFromZScore s1 mean stdDev r)
           \<le> g_value (getGradeFromZScore s2 mean stdDev r)"
proof -
  from assms have "s2 - mean \<le> s1 - mean"
    by (simp add: divide_le_cancel)
  then have le: "jsSub s2 mean \<le> jsSub s1 mean"
    unfolding jsSub_def by (rule fl_mono)
  show ?thesis
    unfolding g_value_getGradeFromZScore using assms(1) le
    by (simp split: if_splits)
qed

theorem getGradeFromZScore_monotone_witness:
  "(0::real) < 10 \<and> ((40::real) - 50) / 10 \<le> (70 - 50) / 10
     \<and> g_value (getGradeFromZScore 70 50 10 Map.empty) = 1
     \<and> g_value (getGradeFromZScore 40 50 10 Map.empty) = 6
     \<and> g_value (getGradeFromZScore 70 50 10 Map.empty)
         \<le> g_value (getGradeFromZScore 40 50 10 Map.empty)"
proof -
  have h1: "(0::real) < 10" and h2: "((40::real) - 50) / 10 \<le> (70 - 50) / 10"
    by simp_all
  have ev: "g_value (getGradeFromZScore 70 50 10 Map.empty) = 1"
    "g_value (getGradeFromZScore 40 50 10 Map.empty) = 6"
    by (simp_all add: g_value_getGradeFromZScore jsSub_def cutoffs_10)
  from getGradeFromZScore_monotone [OF h1 h2, of Map.empty] h1 h2 ev
  show ?thesis by simp
qed

subsection \<open>Sorting with a comparator\<close>

lemma insertBy_insort_key:
  assumes "\<And>a b. (cmp a b \<le> 0) = (k a \<le> k b)"
  shows "insertBy cmp x xs = insort_key k x xs"
  by (induction xs) (simp_all add: assms)

lemma sortBy_sort_key:
  assumes "\<And>a b. (cmp a b \<le> 0) = (k a \<le> k b)"
  shows "sortBy cmp xs = sort_key k xs"
  by (induction xs) (simp_all add: sortBy_def insertBy_insort_key [OF assms])

lemma rankCmp_rankKey: "(rankCmp a b \<le> 0) = (rankKey a \<le> rankKey b)"
  by (auto simp: rankCmp_def rankKey_def less_eq_prod_def)

lemma sortBy_rankCmp: "sortBy rankCmp xs = sort_key rankKey xs"
  by (rule sortBy_sort_key) (rule rankCmp_rankKey)

subsection \<open>Ranking\<close>

lemma length_assignRanks: "length (assignRanks ps) = length ps"
  by (simp add: assignRanks_def)

lemma nth_assignRanks: "i < length ps \<Longrightarrow> assignRanks ps ! i = (ps ! i)\<lparr>rank := i + 1\<rparr>"
  by (simp add: assignRanks_def)

lemma map_rank_assignRanks: "map rank (assignRanks ps) = [1..<Suc (length ps)]"
proof -
  have "map rank (assignRanks ps) = map Suc [0..<length ps]"
    by (rule nth_equalityI) (simp_all add: length_assignRanks nth_assignRanks)
  then show ?thesis by (simp add: map_Suc_upt)
qed

lemma map_rankKey_assignRanks: "map rankKey (assignRanks ps) = map rankKey ps"
  by (rule nth_equalityI) (simp_all add: length_assignRanks nth_assignRanks rankKey_def)

lemma unrank_assignRanks:
  assumes "\<forall>p\<in>set ps. rank p = 0"
  shows "map (\<lambda>p. p\<lparr>rank := 0\<rparr>) (assignRanks ps) = ps"
proof (rule nth_equalityI)
  show "length (map (\<lambda>p. p\<lparr>rank := 0\<rparr>) (assignRanks ps)) = length ps"
    by (simp add: length_assignRanks)
next
  fix i assume "i < length (map (\<lambda>p. p\<lparr>rank := 0\<rparr>) (assignRanks ps))"
  then have i: "i < length ps" by (simp add: length_assignRanks)
  then have "rank (ps ! i) = 0" using assms by simp
  then have "(ps ! i)\<lparr>rank := 0\<rparr> = ps ! i" by simp
  with i show "map (\<lambda>p. p\<lparr>rank := 0\<rparr>) (assignRanks ps) ! i = ps ! i"
    by (simp add: length_assignRanks nth_assignRanks)
qed

lemma rank_processStudent: "rank (processStudent core stats fm sl gr staff sbs s) = 0"
  by (simp add: processStudent_def Let_def)

lemma unrank_processStudentData:
  "map (\<lambda>p. p\<lparr>rank := 0\<rparr>) (processStudentData core stats students fm sl gr staff sbs)
     = sort_key rankKey (map (processStudent core stats fm sl gr staff sbs) students)"
  unfolding processStudentData_def sortBy_rankCmp
  by (rule unrank_assignRanks) (auto simp: rank_processStudent)

lemma sorted_rankKey_successively:
  assumes "sorted (map rankKey xs)"
  shows "successively (\<lambda>a b. bestSixAggregate a \<le> bestSixAggregate b \<and>
            (bestSixAggregate a = bestSixAggregate b \<longrightarrow> totalScore a \<ge> totalScore b)) xs"
proof -
  from assms have "sorted_wrt (\<lambda>a b. rankKey a \<le> rankKey b) xs"
    by (simp add: sorted_map)
  then have "successively (\<lambda>a b. rankKey a \<le> rankKey b) xs"
    by (rule successively_if_sorted_wrt)
  then show ?thesis
    by (rule successively_mono) (auto simp: rankKey_def less_eq_prod_def)
qed

text \<open>
  C3. In the list that \<open>processStudentData\<close> returns, every adjacent pair has the earlier
  \<open>bestSixAggregate\<close> at most the later one and, when the two are equal, the earlier
  \<open>totalScore\<close> at least the later one; the ranks are 1 to N in list order; and the
  students that tie on both fields stand in the order of the input (the records with a
  given aggregate and total, their rank erased, are those of the input, in its order).
\<close>

theorem processStudentData_ranking:
  "successively (\<lambda>a b. bestSixAggregate a \<le> bestSixAggregate b \<and>
            (bestSixAggregate a = bestSixAggregate b \<longrightarrow> totalScore a \<ge> totalScore b))
       (processStudentData core stats students fm sl gr staff sbs)
   \<and> map rank (processStudentData core stats students fm sl gr staff sbs)
       = [1..<Suc (length students)]
   \<and> (\<forall>a t. filter (\<lambda>p. bestSixAggregate p = a \<and> totalScore p = t)
               (map (\<lambda>p. p\<lparr>rank := 0\<rparr>) (processStudentData core stats students fm sl gr staff sbs))
            = filter (\<lambda>p. bestSixAggregate p = a \<and> totalScore p = t)
               (map (processStudent core stats fm sl gr staff sbs) students))"
proof (intro conjI allI)
  have "sorted (map rankKey (processStudentData core stats students fm sl gr staff sbs))"
    unfolding processStudentData_def sortBy_rankCmp map_rankKey_assignRanks
    by (rule sorted_sort_key)
  then show "successively (\<lambda>a b. bestSixAggregate a \<le> bestSixAggregate b \<and>
            (bestSixAggregate a = bestSixAggregate b \<longrightarrow> totalScore a \<ge> totalScore b))
       (processStudentData core stats students fm sl gr staff sbs)"
    by (rule sorted_rankKey_successively)
next
  show "map rank (processStudentData core stats students fm sl gr staff sbs)
       = [1..<Suc (length students)]"
    unfolding processStudentData_def
    by (simp add: map_rank_assignRanks sortBy_rankCmp)
next
  fix a t
  have eq: "(\<lambda>p. bestSixAggregate p = a \<and> totalScore p = t) = (\<lambda>p. rankKey p = (a, - t))"
    by (auto simp: rankKey_def)
  show "filter (\<lambda>p. bestSixAggregate p = a \<and> totalScore p = t)
               (map (\<lambda>p. p\<lparr>rank := 0\<rparr>) (processStudentData core stats students fm sl gr staff sbs))
            = filter (\<lambda>p. bestSixAggregate p = a \<and> totalScore p = t)
               (map (processStudent core stats fm sl gr staff sbs) students)"
    unfolding unrank_processStudentData eq
    by (rule sort_key_stable)
qed

text \<open>
  Three students: the first and the third tie on aggregate 7 and total 110, the second
  has the same aggregate and the total 115. The second comes first, then the two that tie,
  in the order of the input.
\<close>

theorem processStudentData_ranking_witness:
  "map (\<lambda>p. (p_id p, bestSixAggregate p, totalScore p, rank p))
      (exRun [''Math'', ''Art'']
         [exStudent 1 70 40 None None, exStudent 2 40 75 None None, exStudent 3 40 70 None None])
     = [(2, 7, 115, 1), (1, 7, 110, 2), (3, 7, 110, 3)]
   \<and> successively (\<lambda>a b. bestSixAggregate a \<le> bestSixAggregate b \<and>
            (bestSixAggregate a = bestSixAggregate b \<longrightarrow> totalScore a \<ge> totalScore b))
      (exRun [''Math'', ''Art'']
         [exStudent 1 70 40 None None, exStudent 2 40 75 None None, exStudent 3 40 70 None None])"
proof -
  have ev: "map (\<lambda>p. (p_id p, bestSixAggregate p, totalScore p, rank p))
      (exRun [''Math'', ''Art'']
         [exStudent 1 70 40 None None, exStudent 2 40 75 None None, exStudent 3 40 70 None None])
     = [(2, 7, 115, 1), (1, 7, 110, 2), (3, 7, 110, 3)]"
    by (simp add: ev_defs)
  from processStudentData_ranking [of "[''Math'', ''Science'']" exStats
      "[exStudent 1 70 40 None None, exStudent 2 40 75 None None, exStudent 3 40 70 None None]"
      Map.empty "[''Math'', ''Art'']" Map.empty "[]" 100]
  have "successively (\<lambda>a b. bestSixAggregate a \<le> bestSixAggregate b \<and>
            (bestSixAggregate a = bestSixAggregate b \<longrightarrow> totalScore a \<ge> totalScore b))
      (exRun [''Math'', ''Art'']
         [exStudent 1 70 40 None None, exStudent 2 40 75 None None, exStudent 3 40 70 None None])"
    unfolding exRun_def by (rule conjunct1)
  with ev show ?thesis by (rule conjI)
qed

subsection \<open>The best-six aggregate\<close>















lemma map_assignRanks:
  assumes "\<And>p r. g (p\<lparr>rank := r\<rparr>) = g p"
  shows "map g (assignRanks ps) = map g ps"
  by (rule nth_equalityI) (simp_all add: length_assignRanks nth_assignRanks assms)





subsection \<open>The records of the result\<close>

lemma set_assignRanks:
  "p \<in> set (assignRanks ps) \<longleftrightarrow> (\<exists>i<length ps. p = (ps ! i)\<lparr>rank := i + 1\<rparr>)"
proof
  assume "p \<in> set (assignRanks ps)"
  then obtain i where "i < length (assignRanks ps)" "assignRanks ps ! i = p"
    by (auto simp: in_set_conv_nth)
  then show "\<exists>i<length ps. p = (ps ! i)\<lparr>rank := i + 1\<rparr>"
    by (auto simp: length_assignRanks nth_assignRanks)
next
  assume "\<exists>i<length ps. p = (ps ! i)\<lparr>rank := i + 1\<rparr>"
  then obtain i where i: "i < length ps" "p = (ps ! i)\<lparr>rank := i + 1\<rparr>" by blast
  then have "assignRanks ps ! i = p" by (simp add: nth_assignRanks)
  moreover from i have "i < length (assignRanks ps)" by (simp add: length_assignRanks)
  ultimately show "p \<in> set (assignRanks ps)" by (auto simp: in_set_conv_nth)
qed

lemma in_processStudentData:
  assumes "p \<in> set (processStudentData core stats students fm sl gr staff sbs)"
  shows "\<exists>s\<in>set students. \<exists>r. p = (processStudent core stats fm sl gr staff sbs s)\<lparr>rank := r\<rparr>"
proof -
  let ?ps = "sort_key rankKey (map (processStudent core stats fm sl gr staff sbs) students)"
  from assms obtain i where i: "i < length ?ps" "p = (?ps ! i)\<lparr>rank := i + 1\<rparr>"
    unfolding processStudentData_def sortBy_rankCmp set_assignRanks by blast
  from i(1) have "?ps ! i \<in> set ?ps" by (rule nth_mem)
  then have "?ps ! i \<in> processStudent core stats fm sl gr staff sbs ` set students"
    by (simp only: set_sort set_map)
  then obtain s where s: "s \<in> set students"
      "?ps ! i = processStudent core stats fm sl gr staff sbs s"
    by (rule imageE)
  from i(2) s(2) have "p = (processStudent core stats fm sl gr staff sbs s)\<lparr>rank := i + 1\<rparr>"
    by simp
  with s(1) show ?thesis by (intro bexI exI)
qed

lemma processStudent_in_data:
  assumes "s \<in> set students"
  shows "\<exists>r. (processStudent core stats fm sl gr staff sbs s)\<lparr>rank := r\<rparr>
            \<in> set (processStudentData core stats students fm sl gr staff sbs)"
proof -
  let ?ps = "sort_key rankKey (map (processStudent core stats fm sl gr staff sbs) students)"
  from assms have "processStudent core stats fm sl gr staff sbs s \<in> set ?ps" by simp
  then obtain i where "i < length ?ps" "?ps ! i = processStudent core stats fm sl gr staff sbs s"
    unfolding in_set_conv_nth by blast
  then have "(processStudent core stats fm sl gr staff sbs s)\<lparr>rank := i + 1\<rparr>
      \<in> set (assignRanks ?ps)"
    unfolding set_assignRanks by metis
  then show ?thesis
    unfolding processStudentData_def sortBy_rankCmp by blast
qed

lemma category_processStudent:
  "category (processStudent core stats fm sl gr staff sbs s)
     = categoryOf (bestSixAggregate (processStudent core stats fm sl gr staff sbs s))"
  by (simp add: processStudent_def Let_def)

text \<open>
  C10. The category of every returned record is Distinction when the aggregate is at most
  10, Merit when at most 20, Pass when at most 36 and Fail otherwise; the placeholder
  Average is never returned.
\<close>

theorem category_cases:
  "\<forall>p\<in>set (processStudentData core stats students fm sl gr staff sbs).
      category p = (if bestSixAggregate p \<le> 10 then ''Distinction''
                    else if bestSixAggregate p \<le> 20 then ''Merit''
                    else if bestSixAggregate p \<le> 36 then ''Pass''
                    else ''Fail'')
    \<and> category p \<noteq> ''Average''"
proof
  fix p assume "p \<in> set (processStudentData core stats students fm sl gr staff sbs)"
  then obtain s r where "p = (processStudent core stats fm sl gr staff sbs s)\<lparr>rank := r\<rparr>"
    using in_processStudentData by blast
  then have "category p = categoryOf (bestSixAggregate p)"
    by (simp add: category_processStudent)
  then show "category p = (if bestSixAggregate p \<le> 10 then ''Distinction''
                    else if bestSixAggregate p \<le> 20 then ''Merit''
                    else if bestSixAggregate p \<le> 36 then ''Pass''
                    else ''Fail'')
    \<and> category p \<noteq> ''Average''"
    by (simp add: categoryOf_def)
qed

theorem category_cases_witness:
  "map (\<lambda>p. (bestSixAggregate p, category p))
     (exRun [''Math'', ''Art''] [exStudent 1 40 20 None None, exStudent 2 70 40 None None])
     = [(7, ''Distinction''), (15, ''Merit'')]"
  using category_cases [of "[''Math'', ''Science'']" exStats
      "[exStudent 1 40 20 None None, exStudent 2 70 40 None None]" Map.empty "[''Math'', ''Art'']"
      Map.empty "[]" 100]
  by (simp add: ev_defs)

subsection \<open>The score of a subject\<close>

lemma statsScore_subjectScore: "statsScore sbs subj s = subjectScore sbs subj s"
  by (simp add: statsScore_def subjectScore_def Let_def split: option.splits)

lemma score_computeSubject:
  "score (computeSubject stats fm gr staff sbs s subj) = subjectScore sbs subj s"
  by (simp add: computeSubject_def Let_def)

lemma subjects_processStudent:
  "subjects (processStudent core stats fm sl gr staff sbs s)
     = map (computeSubject stats fm gr staff sbs s) sl"
  by (simp add: processStudent_def Let_def)

lemma calculateClassStatistics_fold:
  "subjectMeans (foldl (\<lambda>st subj.
        let scores = map (statsScore sbs subj) students;
            mean = calculateMean scores;
            stdDev = calculateStdDev scores mean
        in st\<lparr>subjectMeans := (subjectMeans st)(subj \<mapsto> mean),
               subjectStdDevs := (subjectStdDevs st)(subj \<mapsto> stdDev)\<rparr>) st0 sl) subj
     = (if subj \<in> set sl then Some (calculateMean (map (statsScore sbs subj) students))
        else subjectMeans st0 subj)
   \<and> subjectStdDevs (foldl (\<lambda>st subj.
        let scores = map (statsScore sbs subj) students;
            mean = calculateMean scores;
            stdDev = calculateStdDev scores mean
        in st\<lparr>subjectMeans := (subjectMeans st)(subj \<mapsto> mean),
               subjectStdDevs := (subjectStdDevs st)(subj \<mapsto> stdDev)\<rparr>) st0 sl) subj
     = (if subj \<in> set sl
        then Some (calculateStdDev (map (statsScore sbs subj) students)
                     (calculateMean (map (statsScore sbs subj) students)))
        else subjectStdDevs st0 subj)"
  by (induction sl arbitrary: st0) (simp_all add: Let_def)

lemma calculateClassStatistics_lookup:
  "subjectMeans (calculateClassStatistics students sl sbs) subj
     = (if subj \<in> set sl then Some (calculateMean (map (statsScore sbs subj) students)) else None)"
  "subjectStdDevs (calculateClassStatistics students sl sbs) subj
     = (if subj \<in> set sl
        then Some (calculateStdDev (map (statsScore sbs subj) students)
                     (calculateMean (map (statsScore sbs subj) students)))
        else None)"
  using calculateClassStatistics_fold [of sbs students
      "\<lparr>subjectMeans = Map.empty, subjectStdDevs = Map.empty\<rparr>" sl subj]
  unfolding calculateClassStatistics_def by simp_all

text \<open>
  C2, as the code has it. The score that \<open>calculateClassStatistics\<close> takes for a student
  and a subject is the one that \<open>processStudentData\<close> takes: for Science with a breakdown,
  \<open>Math.round\<close> of the sum of the two sections when \<open>scienceBaseScore\<close> is not 140, and
  \<open>Math.round\<close> of that sum divided by 140 and multiplied by 100 when it is, each of the
  three operations rounded to a double; otherwise the flat score, 0 when there is none.
  The scores in a processed record are these, subject by subject, and the mean of a
  subject is taken over them.
\<close>

theorem score_consistency:
  "statsScore sbs subj s = subjectScore sbs subj s
   \<and> subjectScore sbs subj s =
       (if subj = ''Science'' \<and> s_scoreDetails s \<noteq> None \<and> the (s_scoreDetails s) ''Science'' \<noteq> None
        then (let det = the (the (s_scoreDetails s) ''Science'') in
              if sbs \<noteq> 140 then mathRound (fl (sectionA det + sectionB det))
              else mathRound (fl (fl (fl (sectionA det + sectionB det) / 140) * 100)))
        else (case s_scores s subj of None \<Rightarrow> 0 | Some v \<Rightarrow> v))
   \<and> map score (subjects (processStudent core stats fm sl gr staff sbs s))
       = map (\<lambda>subj. statsScore sbs subj s) sl
   \<and> subjectMeans (calculateClassStatistics students sl sbs) subj
       = (if subj \<in> set sl then Some (calculateMean (map (statsScore sbs subj) students)) else None)"
proof (intro conjI)
  show "statsScore sbs subj s = subjectScore sbs subj s"
    by (rule statsScore_subjectScore)
  show "subjectScore sbs subj s =
       (if subj = ''Science'' \<and> s_scoreDetails s \<noteq> None \<and> the (s_scoreDetails s) ''Science'' \<noteq> None
        then (let det = the (the (s_scoreDetails s) ''Science'') in
              if sbs \<noteq> 140 then mathRound (fl (sectionA det + sectionB det))
              else mathRound (fl (fl (fl (sectionA det + sectionB det) / 140) * 100)))
        else (case s_scores s subj of None \<Rightarrow> 0 | Some v \<Rightarrow> v))"
    by (cases "s_scoreDetails s"; cases "s_scores s subj"; cases "the (s_scoreDetails s) ''Science''")
      (simp_all add: subjectScore_def Let_def jsAdd_def jsMul_def jsDiv_def)
  show "map score (subjects (processStudent core stats fm sl gr staff sbs s))
       = map (\<lambda>subj. statsScore sbs subj s) sl"
    by (simp add: subjects_processStudent score_computeSubject statsScore_subjectScore comp_def)
  show "subjectMeans (calculateClassStatistics students sl sbs) subj
       = (if subj \<in> set sl then Some (calculateMean (map (statsScore sbs subj) students)) else None)"
    by (rule calculateClassStatistics_lookup)
qed

lemma exScience_scores:
  "statsScore 140 ''Science'' exScience = 57"
  "statsScore 100 ''Science'' exScience = 80"
  "statsScore 140 ''Math'' exScience = 0"
  "statsScore 140 ''Science'' exScienceHalf = 57"
  unfolding statsScore_def exScience_def exScienceHalf_def exStudent_def jsAdd_def jsMul_def
    jsDiv_def mathRound_def fl_def Let_def
  by (simp_all add: expo.simps roundEven_def)

theorem score_consistency_witness:
  "statsScore 140 ''Science'' exScience = 57 \<and> subjectScore 140 ''Science'' exScience = 57
   \<and> statsScore 100 ''Science'' exScience = 80 \<and> subjectScore 100 ''Science'' exScience = 80
   \<and> statsScore 140 ''Math'' exScience = 0 \<and> subjectScore 140 ''Math'' exScience = 0"
  using score_consistency [of 140 "''Science''" exScience]
    score_consistency [of 100 "''Science''" exScience]
    score_consistency [of 140 "''Math''" exScience] exScience_scores
  by simp

text \<open>
  With the sections 30.5 and 50 and the base 140, the exact quotient times 100 is 57.5,
  which rounds to 58; the code's doubles give 57.49999999999999, and both copies of the
  rule return 57.
\<close>

theorem score_formula_counterexample:
  "statsScore 140 ''Science'' exScienceHalf = 57
   \<and> subjectScore 140 ''Science'' exScienceHalf = 57
   \<and> mathRound ((30.5 + 50) / 140 * 100) = 58"
  using exScience_scores(4) statsScore_subjectScore [of 140 "''Science''" exScienceHalf]
  by (simp add: mathRound_def)

subsection \<open>Remarks\<close>

lemma overallRemark_final:
  assumes "nonBlank (s_finalRemark s)"
  shows "overallRemark (processStudent core stats fm sl gr staff sbs s) = the (s_finalRemark s)"
    and "weaknessAnalysis (processStudent core stats fm sl gr staff sbs s) =
       (if filter (\<lambda>c. 7 \<le> gradeValue c) (subjects (processStudent core stats fm sl gr staff sbs s)) = []
        then []
        else ''Needs urgent improvement in: '' @
          join '', '' (map subject (filter (\<lambda>c. 7 \<le> gradeValue c)
             (subjects (processStudent core stats fm sl gr staff sbs s)))) @ ''.'')"
  using assms by (simp_all add: processStudent_def assembleRemarks_def weakNote_def Let_def)

text \<open>
  C5, as the code has it. For a student of the cohort whose \<open>finalRemark\<close> is not blank, the
  result holds the student's record, whose \<open>overallRemark\<close> is the \<open>finalRemark\<close> itself,
  with nothing appended; the weakness note, which lists the subjects of grade value 7 or
  more after \<open>Needs urgent improvement in:\<close>, joined by a comma and a space and closed by a
  full stop, is the separate property \<open>weaknessAnalysis\<close>, empty when there is no such
  subject.
\<close>

theorem finalRemark_verbatim:
  assumes "s \<in> set students" and "nonBlank (s_finalRemark s)"
  shows "(\<exists>r. (processStudent core stats fm sl gr staff sbs s)\<lparr>rank := r\<rparr>
            \<in> set (processStudentData core stats students fm sl gr staff sbs))
     \<and> overallRemark (processStudent core stats fm sl gr staff sbs s) = the (s_finalRemark s)
     \<and> weaknessAnalysis (processStudent core stats fm sl gr staff sbs s) =
       (if filter (\<lambda>c. 7 \<le> gradeValue c) (subjects (processStudent core stats fm sl gr staff sbs s)) = []
        then []
        else ''Needs urgent improvement in: '' @
          join '', '' (map subject (filter (\<lambda>c. 7 \<le> gradeValue c)
             (subjects (processStudent core stats fm sl gr staff sbs s)))) @ ''.'')"
  using processStudent_in_data [OF assms(1)] overallRemark_final [OF assms(2)]
  by (intro conjI)

theorem finalRemark_verbatim_witness:
  "exStudent 1 30 20 (Some ''Good'') None \<in> set [exStudent 1 30 20 (Some ''Good'') None]
   \<and> nonBlank (s_finalRemark (exStudent 1 30 20 (Some ''Good'') None))
   \<and> map (\<lambda>p. (overallRemark p, weaknessAnalysis p))
        (exRun [''Math'', ''Art''] [exStudent 1 30 20 (Some ''Good'') None])
      = [(''Good'', ''Needs urgent improvement in: Math, Art.'')]
   \<and> overallRemark (processStudent [''Math'', ''Science''] exStats Map.empty [''Math'', ''Art'']
        Map.empty [] 100 (exStudent 1 30 20 (Some ''Good'') None)) = ''Good''"
proof -
  have h1: "exStudent 1 30 20 (Some ''Good'') None \<in> set [exStudent 1 30 20 (Some ''Good'') None]"
    by simp
  have h2: "nonBlank (s_finalRemark (exStudent 1 30 20 (Some ''Good'') None))"
    by (simp add: exStudent_def nonBlank_def trim_def isWhiteSpace_def)
  have ev: "map (\<lambda>p. (overallRemark p, weaknessAnalysis p))
        (exRun [''Math'', ''Art''] [exStudent 1 30 20 (Some ''Good'') None])
      = [(''Good'', ''Needs urgent improvement in: Math, Art.'')]"
    by (simp add: ev_defs)
  from finalRemark_verbatim [OF h1 h2, of "[''Math'', ''Science'']" exStats Map.empty
      "[''Math'', ''Art'']" Map.empty "[]" 100]
  have "overallRemark (processStudent [''Math'', ''Science''] exStats Map.empty [''Math'', ''Art'']
        Map.empty [] 100 (exStudent 1 30 20 (Some ''Good'') None))
      = the (s_finalRemark (exStudent 1 30 20 (Some ''Good'') None))"
    by blast
  then have "overallRemark (processStudent [''Math'', ''Science''] exStats Map.empty [''Math'', ''Art'']
        Map.empty [] 100 (exStudent 1 30 20 (Some ''Good'') None)) = ''Good''"
    by (simp add: exStudent_def)
  with h1 h2 ev show ?thesis by (intro conjI)
qed

text \<open>
  With a final remark and a subject graded F9, the overall remark is the final remark alone:
  the note is in \<open>weaknessAnalysis\<close> and is not the end of \<open>overallRemark\<close>.
\<close>

theorem finalRemark_appended_counterexample:
  "map (\<lambda>p. (overallRemark p, weaknessAnalysis p))
      (exRun [''Math'', ''Art''] [exStudent 1 70 20 (Some ''Good'') None])
     = [(''Good'', ''Needs urgent improvement in: Art.'')]
   \<and> map (\<lambda>p. suffix ''Needs urgent improvement in: Art.'' (overallRemark p))
      (exRun [''Math'', ''Art''] [exStudent 1 70 20 (Some ''Good'') None]) = [False]"
  by (simp add: ev_defs suffix_to_prefix)

subsection \<open>The descriptive properties\<close>

text \<open>
  C9, as the code has it. The records of the result carry, student by student, the
  \<open>age\<close>, \<open>promotedTo\<close>, \<open>conduct\<close>, \<open>interest\<close> and \<open>skills\<close> of the input unchanged; \<open>attendance\<close>
  is the input's when that is a non-empty string and \<open>0\<close> otherwise.
\<close>

theorem passthrough_fields:
  "mset (map (\<lambda>p. (p_id p, attendance p, age p, promotedTo p, conduct p, interest p, skills p))
           (processStudentData core stats students fm sl gr staff sbs))
   = mset (map (\<lambda>s. (s_id s, Some (case s_attendance s of None \<Rightarrow> ''0''
                                      | Some a \<Rightarrow> if a = [] then ''0'' else a),
                      s_age s, s_promotedTo s, s_conduct s, s_interest s, s_skills s))
           students)"
proof -
  let ?g = "\<lambda>p. (p_id p, attendance p, age p, promotedTo p, conduct p, interest p, skills p)"
  let ?ps = "map (processStudent core stats fm sl gr staff sbs) students"
  have a: "map ?g (processStudentData core stats students fm sl gr staff sbs)
      = map ?g (sort_key rankKey ?ps)"
    unfolding processStudentData_def sortBy_rankCmp
    by (rule map_assignRanks) simp
  have b: "mset (map ?g (sort_key rankKey ?ps)) = mset (map ?g ?ps)"
    by (simp only: mset_map mset_sort)
  have c: "map ?g ?ps
      = map (\<lambda>s. (s_id s, Some (case s_attendance s of None \<Rightarrow> ''0''
                                      | Some a \<Rightarrow> if a = [] then ''0'' else a),
                      s_age s, s_promotedTo s, s_conduct s, s_interest s, s_skills s)) students"
    by (simp add: processStudent_def Let_def split: option.splits)
  show ?thesis
    by (simp only: a b c)
qed

theorem passthrough_fields_witness:
  "map (\<lambda>p. (p_id p, attendance p, age p, promotedTo p, conduct p, interest p, skills p))
      (exRun [''Math'', ''Art''] [exStudent 1 70 40 None (Some ''45'')])
     = [(1, Some ''45'', Some ''12'', None, None, None, None)]"
  using passthrough_fields [of "[''Math'', ''Science'']" exStats
      "[exStudent 1 70 40 None (Some ''45'')]" Map.empty "[''Math'', ''Art'']" Map.empty "[]" 100]
  by (simp add: ev_defs)

text \<open>An empty attendance comes back as \<open>0\<close>.\<close>

theorem attendance_verbatim_counterexample:
  "map attendance (exRun [''Math'', ''Art''] [exStudent 1 70 40 None (Some [])]) = [Some ''0'']
   \<and> map s_attendance [exStudent 1 70 40 None (Some [])] = [Some []]"
  by (simp add: ev_defs)

subsection \<open>Facilitator statistics\<close>

lemma set_insertBy: "set (insertBy cmp x xs) = insert x (set xs)"
  by (induction xs) auto

lemma set_sortBy: "set (sortBy cmp xs) = set xs"
  by (induction xs) (simp_all add: sortBy_def set_insertBy)

lemma update_invariant:
  assumes "\<forall>e\<in>snd ` set al. I e" and "I v"
  shows "\<forall>e\<in>snd ` set (AList.update k v al). I e"
  using assms by (induction al) auto

lemma accumulate_invariant:
  assumes al: "\<forall>e\<in>snd ` set al. I e"
    and new: "I (addToEntry (newEntry sub) sub)"
    and step: "\<And>e. I e \<Longrightarrow> I (addToEntry e sub)"
  shows "\<forall>e\<in>snd ` set (accumulate al sub). I e"
proof -
  let ?key = "facilitator sub @ ''||'' @ subject sub"
  have "I (addToEntry (case map_of al ?key of None \<Rightarrow> newEntry sub | Some e \<Rightarrow> e) sub)"
  proof (cases "map_of al ?key")
    case None
    then show ?thesis by (simp add: new)
  next
    case (Some e)
    then have "(?key, e) \<in> set al" by (rule map_of_SomeD)
    then have "e \<in> snd ` set al" by (rule image_eqI [rotated]) simp
    with al have "I e" by blast
    with Some show ?thesis by (simp add: step)
  qed
  with al show ?thesis
    unfolding accumulate_def Let_def by (rule update_invariant)
qed

lemma foldl_accumulate_invariant:
  assumes "\<forall>e\<in>snd ` set al. I e"
    and "\<forall>c\<in>set cs. P c"
    and new: "\<And>sub. P sub \<Longrightarrow> I (addToEntry (newEntry sub) sub)"
    and step: "\<And>e sub. P sub \<Longrightarrow> I e \<Longrightarrow> I (addToEntry e sub)"
  shows "\<forall>e\<in>snd ` set (foldl accumulate al cs). I e"
  using assms(1,2)
proof (induction cs arbitrary: al)
  case Nil
  then show ?case by simp
next
  case (Cons c cs)
  from Cons.prems(2) have c: "P c" and cs: "\<forall>c\<in>set cs. P c"
    by simp_all
  have "\<forall>e\<in>snd ` set (accumulate al c). I e"
    using Cons.prems(1) new [OF c] step [OF c] by (rule accumulate_invariant)
  from Cons.IH [OF this cs] show ?case
    by simp
qed

lemma collectStats_invariant:
  assumes new: "\<And>sub. P sub \<Longrightarrow> I (addToEntry (newEntry sub) sub)"
    and step: "\<And>e sub. P sub \<Longrightarrow> I e \<Longrightarrow> I (addToEntry e sub)"
    and P: "\<forall>p\<in>set ps. \<forall>c\<in>set (subjects p). P c"
  shows "\<forall>e\<in>snd ` set (collectStats ps). I e"
proof -
  have "\<forall>e\<in>snd ` set al. I e \<Longrightarrow>
      \<forall>e\<in>snd ` set (foldl (\<lambda>statsMap student. foldl accumulate statsMap (subjects student)) al ps). I e"
    for al
    using P
  proof (induction ps arbitrary: al)
    case Nil
    then show ?case by simp
  next
    case (Cons p ps)
    from Cons.prems(2) have p: "\<forall>c\<in>set (subjects p). P c"
      and ps: "\<forall>p\<in>set ps. \<forall>c\<in>set (subjects p). P c"
      by simp_all
    have "\<forall>e\<in>snd ` set (foldl accumulate al (subjects p)). I e"
      using Cons.prems(1) p new step by (rule foldl_accumulate_invariant)
    from Cons.IH [OF this ps] show ?case
      by simp
  qed
  from this [of "[]"] show ?thesis
    unfolding collectStats_def by simp
qed

lemma in_calculateFacilitatorStats:
  assumes "r \<in> set (calculateFacilitatorStats ps)"
  shows "\<exists>e\<in>snd ` set (collectStats ps). r = finalize e"
proof -
  from assms have "r \<in> finalize ` snd ` set (collectStats ps)"
    by (simp only: calculateFacilitatorStats_def set_sortBy set_map)
  then obtain e where "e \<in> snd ` set (collectStats ps)" and "r = finalize e"
    by (rule imageE)
  then show ?thesis by (intro bexI)
qed

lemma sum_update_count:
  "sum_list (map snd (AList.update k (Suc (countOf gc k)) gc)) = Suc (sum_list (map snd gc))"
  by (induction gc) (auto simp: countOf_def)

lemma countOf_update: "countOf (AList.update k v gc) g = (if g = k then v else countOf gc g)"
  by (simp add: countOf_def update_conv')

lemma sum_bump:
  assumes "distinct bs"
  shows "sum_list (map (\<lambda>g. if g = k then f g + 1 else f g) bs)
           = sum_list (map f bs) + (if k \<in> set bs then 1 else (0::nat))"
  using assms by (induction bs) auto

lemma sum_bands_update:
  assumes "distinct bs"
  shows "sum_list (map (countOf (AList.update k (Suc (countOf gc k)) gc)) bs)
           = sum_list (map (countOf gc) bs) + (if k \<in> set bs then 1 else 0)"
proof -
  have "map (countOf (AList.update k (Suc (countOf gc k)) gc)) bs
      = map (\<lambda>g. if g = k then countOf gc g + 1 else countOf gc g) bs"
    by (simp add: countOf_update)
  then show ?thesis
    by (simp only: sum_bump [OF assms])
qed

lemma distinct_gradeBands: "distinct gradeBands"
  by (simp add: gradeBands_def)

lemma gradeCounts_newEntry:
  "sum_list (map snd (gradeCounts (newEntry sub))) = 0"
  "sum_list (map (countOf (gradeCounts (newEntry sub))) gradeBands) = 0"
  "distinct (map fst (gradeCounts (newEntry sub)))"
  by (simp_all add: newEntry_def gradeBands_def countOf_def)

lemma newEntry_fields:
  "studentCount (newEntry sub) = 0"
  "totalGradeValue (newEntry sub) = 0"
  by (simp_all add: newEntry_def)

lemma finalize_fields:
  "studentCount (finalize e) = studentCount e"
  "gradeCounts (finalize e) = gradeCounts e"
  "totalGradeValue (finalize e) = totalGradeValue e"
  "performancePercentage (finalize e) =
     toFixed2 (if studentCount e * 9 > 0
               then jsMul (jsSub 1 (jsDiv (real_of_int (totalGradeValue e))
                                      (real (studentCount e * 9)))) 100
               else 0)"
  by (simp_all add: finalize_def Let_def)

lemma update_known_key:
  "k \<in> set (map fst al) \<Longrightarrow> map fst (AList.update k v al) = map fst al"
  by (simp add: update_keys)

lemma computeSubject_grade:
  "grade (computeSubject stats fm gr staff sbs s subj) \<in> set gradeBands"
  "1 \<le> gradeValue (computeSubject stats fm gr staff sbs s subj)"
  "gradeValue (computeSubject stats fm gr staff sbs s subj) \<le> 9"
  by (simp_all add: computeSubject_def gradeWithStats_def getGradeFromZScore_def mkGrade_def
      gradeBands_def Let_def split: option.splits)

lemma processStudentData_grades:
  assumes "p \<in> set (processStudentData core stats students fm sl gr staff sbs)"
    and "c \<in> set (subjects p)"
  shows "grade c \<in> set gradeBands" and "1 \<le> gradeValue c" and "gradeValue c \<le> 9"
proof -
  from assms(1) obtain s r where "p = (processStudent core stats fm sl gr staff sbs s)\<lparr>rank := r\<rparr>"
    using in_processStudentData by blast
  then have "subjects p = map (computeSubject stats fm gr staff sbs s) sl"
    by (simp add: subjects_processStudent)
  with assms(2) obtain subj where "c = computeSubject stats fm gr staff sbs s subj"
    by auto
  then show "grade c \<in> set gradeBands" and "1 \<le> gradeValue c" and "gradeValue c \<le> 9"
    by (simp_all add: computeSubject_grade)
qed

lemma gradeCounts_invariant:
  assumes "\<forall>p\<in>set ps. \<forall>c\<in>set (subjects p). grade c \<in> set gradeBands"
    and "r \<in> set (calculateFacilitatorStats ps)"
  shows "map fst (gradeCounts r) = gradeBands"
    and "sum_list (map snd (gradeCounts r)) = studentCount r"
    and "sum_list (map (countOf (gradeCounts r)) gradeBands) = studentCount r"
proof -
  from assms(2) obtain e where e: "e \<in> snd ` set (collectStats ps)" and r: "r = finalize e"
    using in_calculateFacilitatorStats by blast
  have keys0: "map fst (gradeCounts (newEntry sub)) = gradeBands" for sub
    by (simp add: newEntry_def comp_def)
  have "\<forall>e\<in>snd ` set (collectStats ps). map fst (gradeCounts e) = gradeBands"
    by (rule collectStats_invariant [where P = "\<lambda>c. grade c \<in> set gradeBands"])
      (simp_all add: addToEntry_def keys0 update_known_key assms(1))
  with e have "map fst (gradeCounts e) = gradeBands"
    by blast
  then show "map fst (gradeCounts r) = gradeBands"
    by (simp add: r finalize_fields)
  have "\<forall>e\<in>snd ` set (collectStats ps). sum_list (map snd (gradeCounts e)) = studentCount e"
    by (rule collectStats_invariant [where P = "\<lambda>_. True"])
      (simp_all add: addToEntry_def gradeCounts_newEntry sum_update_count newEntry_fields)
  with e have "sum_list (map snd (gradeCounts e)) = studentCount e"
    by blast
  then show "sum_list (map snd (gradeCounts r)) = studentCount r"
    by (simp add: r finalize_fields)
  have "\<forall>e\<in>snd ` set (collectStats ps).
      sum_list (map (countOf (gradeCounts e)) gradeBands) = studentCount e"
    by (rule collectStats_invariant [where P = "\<lambda>c. grade c \<in> set gradeBands"])
      (simp_all add: addToEntry_def gradeCounts_newEntry
        sum_bands_update [OF distinct_gradeBands] newEntry_fields assms(1))
  with e have "sum_list (map (countOf (gradeCounts e)) gradeBands) = studentCount e"
    by blast
  then show "sum_list (map (countOf (gradeCounts r)) gradeBands) = studentCount r"
    by (simp add: r finalize_fields)
qed

text \<open>
  C6. In every record that \<open>calculateFacilitatorStats\<close> returns for the result of
  \<open>processStudentData\<close>, the keys of \<open>gradeCounts\<close> are the nine grade bands and its values,
  over the nine bands, add up to \<open>studentCount\<close>.
\<close>

theorem gradeCounts_sum:
  "\<forall>r\<in>set (calculateFacilitatorStats
             (processStudentData core stats students fm sl gr staff sbs)).
     map fst (gradeCounts r) = gradeBands
     \<and> sum_list (map snd (gradeCounts r)) = studentCount r
     \<and> sum_list (map (countOf (gradeCounts r)) gradeBands) = studentCount r"
proof
  fix r
  assume r: "r \<in> set (calculateFacilitatorStats
      (processStudentData core stats students fm sl gr staff sbs))"
  have g: "\<forall>p\<in>set (processStudentData core stats students fm sl gr staff sbs).
      \<forall>c\<in>set (subjects p). grade c \<in> set gradeBands"
    using processStudentData_grades(1) by blast
  from gradeCounts_invariant [OF g r]
  show "map fst (gradeCounts r) = gradeBands
     \<and> sum_list (map snd (gradeCounts r)) = studentCount r
     \<and> sum_list (map (countOf (gradeCounts r)) gradeBands) = studentCount r"
    by (intro conjI)
qed

text \<open>Two students and one subject: an A1 and a C6 in one group.\<close>

theorem gradeCounts_sum_witness:
  "map (\<lambda>r. (studentCount r, gradeCounts r,
              sum_list (map (countOf (gradeCounts r)) gradeBands)))
     (calculateFacilitatorStats
        (exRun [''Math''] [exStudent 1 70 0 None None, exStudent 2 40 0 None None]))
     = [(2, [(''A1'', 1), (''B2'', 0), (''B3'', 0), (''C4'', 0), (''C5'', 0), (''C6'', 1),
             (''D7'', 0), (''E8'', 0), (''F9'', 0)], 2)]"
  using gradeCounts_sum [of "[''Math'', ''Science'']" exStats
      "[exStudent 1 70 0 None None, exStudent 2 40 0 None None]" Map.empty "[''Math'']"
      Map.empty "[]" 100]
  by (simp add: ev_defs fs_defs)

subsection \<open>The performance percentage\<close>

lemma toFixed2_mono:
  assumes "x \<le> y"
  shows "toFixed2 x \<le> toFixed2 y"
proof -
  have nonneg: "0 \<le> fl (real_of_int \<lfloor>z * 100 + 1 / 2\<rfloor> / 100)" if "0 \<le> z" for z :: real
  proof -
    from that have "0 \<le> \<lfloor>z * 100 + 1 / 2\<rfloor>" by (simp add: zero_le_floor)
    then have "0 \<le> real_of_int \<lfloor>z * 100 + 1 / 2\<rfloor> / 100" by simp
    then have "fl 0 \<le> fl (real_of_int \<lfloor>z * 100 + 1 / 2\<rfloor> / 100)" by (rule fl_mono)
    then show ?thesis by (simp add: fl_0)
  qed
  have step: "fl (real_of_int \<lfloor>u * 100 + 1 / 2\<rfloor> / 100) \<le> fl (real_of_int \<lfloor>v * 100 + 1 / 2\<rfloor> / 100)"
    if "u \<le> v" for u v :: real
  proof -
    from that have "\<lfloor>u * 100 + 1 / 2\<rfloor> \<le> \<lfloor>v * 100 + 1 / 2\<rfloor>"
      by (intro floor_mono) simp
    then have "real_of_int \<lfloor>u * 100 + 1 / 2\<rfloor> / 100 \<le> real_of_int \<lfloor>v * 100 + 1 / 2\<rfloor> / 100"
      by (simp add: divide_right_mono)
    then show ?thesis by (rule fl_mono)
  qed
  have neg: "toFixed2 z = - fl (real_of_int \<lfloor>(- z) * 100 + 1 / 2\<rfloor> / 100)" if "z < 0" for z
    using that by (simp add: toFixed2_def)
  have pos: "toFixed2 z = fl (real_of_int \<lfloor>z * 100 + 1 / 2\<rfloor> / 100)" if "0 \<le> z" for z
    using that by (simp add: toFixed2_def)
  consider "y < 0" | "x < 0" "0 \<le> y" | "0 \<le> x" by linarith
  then show ?thesis
  proof cases
    case 1
    with assms have "x < 0" by simp
    from assms have "- y \<le> - x" by simp
    from step [OF this] show ?thesis
      by (simp only: neg [OF 1] neg [OF \<open>x < 0\<close>] neg_le_iff_le)
  next
    case 2
    from 2(1) have "0 \<le> - x" by simp
    from nonneg [OF this] nonneg [OF 2(2)]
    have "- fl (real_of_int \<lfloor>(- x) * 100 + 1 / 2\<rfloor> / 100)
        \<le> fl (real_of_int \<lfloor>y * 100 + 1 / 2\<rfloor> / 100)"
      by linarith
    then show ?thesis
      by (simp only: neg [OF 2(1)] pos [OF 2(2)])
  next
    case 3
    with assms have "0 \<le> y" by simp
    from step [OF assms] show ?thesis
      by (simp only: pos [OF 3] pos [OF \<open>0 \<le> y\<close>])
  qed
qed

lemma percentage_values:
  "toFixed2 (jsMul (jsSub 1 (jsDiv 1 9)) 100) = fl 88.89"
  "toFixed2 (jsMul (jsSub 1 (jsDiv 657 1440)) 100) = fl 54.37"
  "toFixed2 (jsMul (fl (1 - jsDiv 1 9)) 100) = fl 88.89"
  "toFixed2 (jsMul (fl (1 - jsDiv 657 1440)) 100) = fl 54.37"
  unfolding toFixed2_def jsMul_def jsSub_def jsDiv_def fl_def Let_def
  by (simp_all add: expo.simps roundEven_def)

lemma fl_54: "fl 54.37 < fl 54.38"
  unfolding fl_def Let_def by (simp add: expo.simps roundEven_def)

lemma fl_88_89_le: "fl 88.89 \<le> 89"
proof -
  have "fl 88.89 \<le> fl 89" by (rule fl_mono) simp
  then show ?thesis by simp
qed

lemma percentage_bound:
  fixes t :: int and c :: nat
  assumes "0 < c" and "int c \<le> t"
  shows "toFixed2 (jsMul (jsSub 1 (jsDiv (real_of_int t) (real (c * 9)))) 100) \<le> fl 88.89"
proof -
  from assms(2) have "real c \<le> real_of_int t" by linarith
  with assms(1) have "1 / 9 \<le> real_of_int t / real (c * 9)"
    by (simp add: field_simps)
  then have "jsDiv 1 9 \<le> jsDiv (real_of_int t) (real (c * 9))"
    unfolding jsDiv_def by (rule fl_mono)
  then have "1 - jsDiv (real_of_int t) (real (c * 9)) \<le> 1 - jsDiv 1 9"
    by simp
  then have "jsSub 1 (jsDiv (real_of_int t) (real (c * 9))) \<le> jsSub 1 (jsDiv 1 9)"
    unfolding jsSub_def by (rule fl_mono)
  then have "jsSub 1 (jsDiv (real_of_int t) (real (c * 9))) * 100 \<le> jsSub 1 (jsDiv 1 9) * 100"
    by simp
  then have "jsMul (jsSub 1 (jsDiv (real_of_int t) (real (c * 9)))) 100
      \<le> jsMul (jsSub 1 (jsDiv 1 9)) 100"
    unfolding jsMul_def by (rule fl_mono)
  then have "toFixed2 (jsMul (jsSub 1 (jsDiv (real_of_int t) (real (c * 9)))) 100)
      \<le> toFixed2 (jsMul (jsSub 1 (jsDiv 1 9)) 100)"
    by (rule toFixed2_mono)
  then show ?thesis
    by (simp only: percentage_values(1))
qed

lemma collectStats_concat: "collectStats ps = foldl accumulate [] (concat (map subjects ps))"
proof -
  have "foldl (\<lambda>statsMap student. foldl accumulate statsMap (subjects student)) m ps
      = foldl accumulate m (concat (map subjects ps))" for m
    by (induction ps arbitrary: m) simp_all
  then show ?thesis by (simp add: collectStats_def)
qed

lemma subjects_assignRanks: "map subjects (assignRanks ps) = map subjects ps"
  by (rule map_assignRanks) simp

lemma sorted_constant: "\<forall>x\<in>set xs. k x = a \<Longrightarrow> sorted (map k xs)"
  by (induction xs) simp_all

lemma sort_key_two_blocks:
  assumes "\<forall>x\<in>set xs. k x = a" and "\<forall>y\<in>set ys. k y = b" and "a \<le> b"
  shows "sort_key k (xs @ ys) = xs @ ys"
proof (rule sort_key_id_if_sorted)
  from assms show "sorted (map k (xs @ ys))"
    by (simp add: sorted_append sorted_constant [of xs k a] sorted_constant [of ys k b])
qed

lemma addToEntry_fold:
  "studentCount (foldl addToEntry e cs) = studentCount e + length cs"
  "totalGradeValue (foldl addToEntry e cs) = totalGradeValue e + sum_list (map gradeValue cs)"
  by (induction cs arbitrary: e) (simp_all add: addToEntry_def)

lemma accumulate_same_key:
  assumes "facilitator c @ ''||'' @ subject c = k"
  shows "accumulate [(k, e)] c = [(k, addToEntry e c)]"
    and "accumulate [] c = [(k, addToEntry (newEntry c) c)]"
  using assms by (simp_all add: accumulate_def)

lemma foldl_accumulate_same_key:
  assumes "\<forall>c\<in>set cs. facilitator c @ ''||'' @ subject c = k"
  shows "foldl accumulate [(k, e)] cs = [(k, foldl addToEntry e cs)]"
  using assms by (induction cs arbitrary: e) (simp_all add: accumulate_same_key(1))

lemma foldl_accumulate_one_group:
  assumes "\<forall>c\<in>set (c0 # cs). facilitator c @ ''||'' @ subject c = k"
  shows "foldl accumulate [] (c0 # cs) = [(k, foldl addToEntry (newEntry c0) (c0 # cs))]"
  using assms by (simp add: accumulate_same_key(2) foldl_accumulate_same_key)

lemma exStudent_graded:
  "rankKey (processStudent [''Math'', ''Science''] exStats Map.empty [''Math''] Map.empty [] 100
      (exStudent i 52 0 None None)) = (4, - 52)"
  "rankKey (processStudent [''Math'', ''Science''] exStats Map.empty [''Math''] Map.empty [] 100
      (exStudent i 48 0 None None)) = (5, - 48)"
  "subjects (processStudent [''Math'', ''Science''] exStats Map.empty [''Math''] Map.empty [] 100
      (exStudent i 52 0 None None)) = [exSubject ''TBA'' ''Math'' ''C4'' 4
        \<lparr>score := 52, remark := generateSubjectRemark 52, zScore := Some (jsDiv (jsSub 52 50) 10)\<rparr>]"
  "subjects (processStudent [''Math'', ''Science''] exStats Map.empty [''Math''] Map.empty [] 100
      (exStudent i 48 0 None None)) = [exSubject ''TBA'' ''Math'' ''C5'' 5
        \<lparr>score := 48, remark := generateSubjectRemark 48, zScore := Some (jsDiv (jsSub 48 50) 10)\<rparr>]"
  by (simp_all add: rankKey_def exSubject_def ev_defs)


lemma foldl_accumulate_group:
  assumes "cs \<noteq> []" and "\<forall>c\<in>set cs. facilitator c @ ''||'' @ subject c = k"
  shows "foldl accumulate [] cs = [(k, foldl addToEntry (newEntry (hd cs)) cs)]"
  using assms foldl_accumulate_one_group [of "hd cs" "tl cs" k] by simp

lemma concat_replicate_singleton: "concat (replicate n [c]) = replicate n c"
  by (induction n) simp_all

lemma exCohort160_subjects:
  "concat (map subjects (exRun [''Math''] exCohort160))
     = replicate 143 (exSubject ''TBA'' ''Math'' ''C4'' 4
         \<lparr>score := 52, remark := generateSubjectRemark 52, zScore := Some (jsDiv (jsSub 52 50) 10)\<rparr>)
     @ replicate 17 (exSubject ''TBA'' ''Math'' ''C5'' 5
         \<lparr>score := 48, remark := generateSubjectRemark 48, zScore := Some (jsDiv (jsSub 48 50) 10)\<rparr>)"
proof -
  let ?F = "processStudent [''Math'', ''Science''] exStats Map.empty [''Math''] Map.empty [] 100"
  let ?xs = "map (\<lambda>i. ?F (exStudent (int i) 52 0 None None)) [1000..<1143]"
  let ?ys = "map (\<lambda>i. ?F (exStudent (int i) 48 0 None None)) [1143..<1160]"
  have run: "exRun [''Math''] exCohort160 = assignRanks (sort_key rankKey (?xs @ ?ys))"
    by (simp add: exRun_def processStudentData_def sortBy_rankCmp exCohort160_def comp_def
        del: upt_rec_numeral)
  have "sort_key rankKey (?xs @ ?ys) = ?xs @ ?ys"
    by (rule sort_key_two_blocks [where a = "(4, - 52)" and b = "(5, - 48)"])
      (simp_all add: exStudent_graded less_eq_prod_def del: upt_rec_numeral)
  then have "map subjects (exRun [''Math''] exCohort160) = map subjects (?xs @ ?ys)"
    by (simp only: run subjects_assignRanks)
  moreover have "length [1000..<1143] = 143" "length [1143..<1160] = 17"
    by (simp_all del: upt_rec_numeral)
  ultimately show ?thesis
    by (simp add: exStudent_graded comp_def map_replicate_const concat_replicate_singleton
        del: upt_rec_numeral)
qed

lemma exCohort160_stats:
  "map (\<lambda>r. (studentCount r, totalGradeValue r, performancePercentage r))
     (calculateFacilitatorStats (exRun [''Math''] exCohort160))
     = [(160, 657, fl 54.37)]"
proof -
  let ?c4 = "exSubject ''TBA'' ''Math'' ''C4'' 4
         \<lparr>score := 52, remark := generateSubjectRemark 52, zScore := Some (jsDiv (jsSub 52 50) 10)\<rparr>"
  let ?c5 = "exSubject ''TBA'' ''Math'' ''C5'' 5
         \<lparr>score := 48, remark := generateSubjectRemark 48, zScore := Some (jsDiv (jsSub 48 50) 10)\<rparr>"
  let ?cs = "replicate 143 ?c4 @ replicate 17 ?c5"
  let ?e = "foldl addToEntry (newEntry (hd ?cs)) ?cs"
  have "collectStats (exRun [''Math''] exCohort160) = foldl accumulate [] ?cs"
    by (simp only: collectStats_concat exCohort160_subjects)
  also have "\<dots> = [(''TBA||Math'', ?e)]"
    by (rule foldl_accumulate_group) (auto simp: exSubject_def)
  finally have "calculateFacilitatorStats (exRun [''Math''] exCohort160) = [finalize ?e]"
    by (simp add: calculateFacilitatorStats_def sortBy_def)
  moreover have "studentCount ?e = 160" "totalGradeValue ?e = 657"
    by (simp_all add: addToEntry_fold newEntry_fields exSubject_def sum_list_replicate)
  ultimately show ?thesis
    by (simp add: finalize_fields percentage_values)
qed

lemma performancePercentage_pipeline:
  assumes r: "r \<in> set (calculateFacilitatorStats
      (processStudentData core stats students fm sl gr staff sbs))"
  shows "0 < studentCount r"
    and "performancePercentage r =
       toFixed2 (jsMul (jsSub 1 (jsDiv (real_of_int (totalGradeValue r))
                                   (real (studentCount r * 9)))) 100)"
    and "performancePercentage r \<le> fl 88.89"
proof -
  let ?ps = "processStudentData core stats students fm sl gr staff sbs"
  from r obtain e where e: "e \<in> snd ` set (collectStats ?ps)" and fin: "r = finalize e"
    using in_calculateFacilitatorStats by blast
  have "\<forall>e\<in>snd ` set (collectStats ?ps). 0 < studentCount e"
    by (rule collectStats_invariant [where P = "\<lambda>_. True"]) (simp_all add: addToEntry_def)
  with e have pos: "0 < studentCount e" by blast
  have v: "\<forall>p\<in>set ?ps. \<forall>c\<in>set (subjects p). 1 \<le> gradeValue c"
    using processStudentData_grades(2) by blast
  have "\<forall>e\<in>snd ` set (collectStats ?ps). int (studentCount e) \<le> totalGradeValue e"
    by (rule collectStats_invariant [where P = "\<lambda>c. 1 \<le> gradeValue c"])
      (simp_all add: addToEntry_def newEntry_fields v)
  with e have le: "int (studentCount e) \<le> totalGradeValue e" by blast
  from pos show "0 < studentCount r"
    by (simp add: fin finalize_fields)
  from pos show perf: "performancePercentage r =
       toFixed2 (jsMul (jsSub 1 (jsDiv (real_of_int (totalGradeValue r))
                                   (real (studentCount r * 9)))) 100)"
    by (simp add: fin finalize_fields)
  from percentage_bound [OF pos le] show "performancePercentage r \<le> fl 88.89"
    by (simp add: fin finalize_fields pos)
qed

text \<open>
  C7, as the code has it. Every record that \<open>calculateFacilitatorStats\<close> returns for the
  result of \<open>processStudentData\<close> has a positive \<open>studentCount\<close>, and its
  \<open>performancePercentage\<close> is what \<open>toFixed(2)\<close> makes of
  \<open>(1 - totalGradeValue / (studentCount * 9)) * 100\<close> computed in doubles, the quotient,
  the difference and the product each rounded (0 if \<open>studentCount\<close> were 0). It never
  exceeds 100, and equals 100 only when the grade values add up to \<open>studentCount\<close>; in fact
  it is at most the double 88.89, the percentage of a group whose grades are all A1.
\<close>

theorem performancePercentage_formula:
  "\<forall>r\<in>set (calculateFacilitatorStats
             (processStudentData core stats students fm sl gr staff sbs)).
     0 < studentCount r
     \<and> performancePercentage r =
         (if studentCount r > 0
          then toFixed2 (fl (fl (1 - fl (real_of_int (totalGradeValue r)
                                          / real (studentCount r * 9))) * 100))
          else 0)
     \<and> performancePercentage r \<le> 100
     \<and> (performancePercentage r = 100 \<longrightarrow> totalGradeValue r = int (studentCount r))
     \<and> performancePercentage r \<le> fl 88.89"
proof
  fix r
  assume r: "r \<in> set (calculateFacilitatorStats
      (processStudentData core stats students fm sl gr staff sbs))"
  note p = performancePercentage_pipeline [OF r]
  from p(3) fl_88_89_le have lt: "performancePercentage r < 100"
    by linarith
  from p(1) p(2) have "performancePercentage r =
         (if studentCount r > 0
          then toFixed2 (fl (fl (1 - fl (real_of_int (totalGradeValue r)
                                          / real (studentCount r * 9))) * 100))
          else 0)"
    by (simp only: jsMul_def jsSub_def jsDiv_def if_True)
  with p(1) p(3) lt
  show "0 < studentCount r
     \<and> performancePercentage r =
         (if studentCount r > 0
          then toFixed2 (fl (fl (1 - fl (real_of_int (totalGradeValue r)
                                          / real (studentCount r * 9))) * 100))
          else 0)
     \<and> performancePercentage r \<le> 100
     \<and> (performancePercentage r = 100 \<longrightarrow> totalGradeValue r = int (studentCount r))
     \<and> performancePercentage r \<le> fl 88.89"
    by simp
qed

text \<open>One student with an A1: the group of one has the percentage 88.89.\<close>

theorem performancePercentage_formula_witness:
  "map (\<lambda>r. (studentCount r, totalGradeValue r, performancePercentage r))
     (calculateFacilitatorStats (exRun [''Math''] [exStudent 1 70 0 None None]))
     = [(1, 1, fl 88.89)]"
  using performancePercentage_formula [of "[''Math'', ''Science'']" exStats
      "[exStudent 1 70 0 None None]" Map.empty "[''Math'']" Map.empty "[]" 100]
  by (simp add: ev_defs fs_defs percentage_values)

text \<open>
  For the cohort of 160 the grade values of the Math group add up to 657. The exact
  percentage is 54.375, which rounds to 54.38; the doubles of the code give
  54.37499999999999, and the record holds 54.37.
\<close>

theorem performancePercentage_rounding_counterexample:
  "map (\<lambda>r. (studentCount r, totalGradeValue r, performancePercentage r))
     (calculateFacilitatorStats (exRun [''Math''] exCohort160))
     = [(160, 657, fl 54.37)]
   \<and> real_of_int \<lfloor>(1 - 657 / (160 * 9)) * 100 * 100 + 1 / 2\<rfloor> / 100 = 54.38
   \<and> fl 54.37 < fl 54.38"
  using exCohort160_stats fl_54 by simp

end
